theory Spec2Isabelle
  imports Complex_Main
begin

section \<open>JavaScript values\<close>

text \<open>
  The request body is untyped JSON. A field of a caller-supplied timeline entry can hold
  any JSON value or be absent; the controller only ever tests such a field for truthiness
  (\<^verbatim>\<open>a || b\<close>, \<^verbatim>\<open>c ? x : y\<close>) or compares it with \<^verbatim>\<open>false\<close>.
  \<open>JObject\<close> stands for a nested object (always truthy); an array in the place of a
  field is truthy like it, and is not covered where the validators or \<^verbatim>\<open>ToNumber\<close>
  look into the value. JSON numbers are modelled as integers; a fractional number is truthy
  like every non-zero integer.
\<close>

datatype js_value = JUndefined | JNull | JBool bool | JNum int | JStr string | JObject

fun truthy :: "js_value \<Rightarrow> bool" where
  "truthy JUndefined = False"
| "truthy JNull = False"
| "truthy (JBool b) = b"
| "truthy (JNum n) = (n \<noteq> 0)"
| "truthy (JStr s) = (s \<noteq> [])"
| "truthy JObject = True"

text \<open>\<^verbatim>\<open>a || b\<close>: the left operand when it is truthy, the right one otherwise.\<close>

definition js_or :: "js_value \<Rightarrow> js_value \<Rightarrow> js_value" where
  "js_or a b = (if truthy a then a else b)"

text \<open>
  \<^verbatim>\<open>xs[i]\<close> on an array: the element when \<open>0 \<le> i < xs.length\<close>, \<^verbatim>\<open>undefined\<close>
  (here \<open>None\<close>) otherwise.
\<close>

definition item_at :: "'a list \<Rightarrow> int \<Rightarrow> 'a option" where
  "item_at xs i = (if 0 \<le> i \<and> i < int (length xs) then Some (xs ! nat i) else None)"

text \<open>\<^verbatim>\<open>xs.findIndex(p)\<close>: the index of the first element satisfying \<open>p\<close>, or \<open>-1\<close>.\<close>

fun findIndex_from :: "int \<Rightarrow> ('a \<Rightarrow> bool) \<Rightarrow> 'a list \<Rightarrow> int" where
  "findIndex_from i p [] = -1"
| "findIndex_from i p (x # xs) = (if p x then i else findIndex_from (i + 1) p xs)"

definition findIndex :: "('a \<Rightarrow> bool) \<Rightarrow> 'a list \<Rightarrow> int" where
  "findIndex p xs = findIndex_from 0 p xs"

text \<open>
  \<^verbatim>\<open>ToNumber\<close>, as the comparisons \<^verbatim>\<open><\<close>, the subtraction and the division of the
  controller apply it to a value of the request body; \<open>None\<close> is \<^verbatim>\<open>NaN\<close>. A string
  is read as a number when it is empty (0) or an optionally signed run of decimal digits:
  these are the strings that \<^verbatim>\<open>isInt\<close> of the route validators lets through. Strings in
  other numeric notations (fractions, exponents, hexadecimal, surrounding blanks) are not
  given their value here.
\<close>

definition digit_value :: "char \<Rightarrow> nat option" where
  "digit_value c = map_of (zip ''0123456789'' [0, 1, 2, 3, 4, 5, 6, 7, 8, 9]) c"

fun digits_value :: "nat \<Rightarrow> string \<Rightarrow> nat option" where
  "digits_value acc [] = Some acc"
| "digits_value acc (c # cs) =
     (case digit_value c of None \<Rightarrow> None | Some d \<Rightarrow> digits_value (10 * acc + d) cs)"

text \<open>The value of a string that matches \<^verbatim>\<open>/^[-+]?[0-9]+$/\<close>, \<open>None\<close> for any other string.\<close>

fun int_literal :: "string \<Rightarrow> int option" where
  "int_literal [] = None"
| "int_literal (c # cs) =
     (if c = CHR ''-'' then (if cs = [] then None else map_option (\<lambda>n. - int n) (digits_value 0 cs))
      else if c = CHR ''+'' then (if cs = [] then None else map_option int (digits_value 0 cs))
      else map_option int (digits_value 0 (c # cs)))"

fun toNumber :: "js_value \<Rightarrow> int option" where
  "toNumber JUndefined = None"
| "toNumber JNull = Some 0"
| "toNumber (JBool b) = Some (if b then 1 else 0)"
| "toNumber (JNum n) = Some n"
| "toNumber (JStr s) = (if s = [] then Some 0 else int_literal s)"
| "toNumber JObject = None"

text \<open>\<^verbatim>\<open>n < v\<close> for a number \<open>n\<close>: false when \<open>v\<close> is not a number.\<close>

definition js_less :: "int \<Rightarrow> js_value \<Rightarrow> bool" where
  "js_less n v = (case toNumber v of None \<Rightarrow> False | Some m \<Rightarrow> n < m)"

text \<open>\<^verbatim>\<open>n === v\<close> for a number \<open>n\<close>: true only when \<open>v\<close> is that number, never for a string.\<close>

definition js_strict_equal :: "int \<Rightarrow> js_value \<Rightarrow> bool" where
  "js_strict_equal n v = (v = JNum n)"

section \<open>Data model (models/Order.js)\<close>

text \<open>
  \<^verbatim>\<open>timelineStepSchema\<close>. The record is polymorphic in the types of its number, string
  and boolean fields: a step of a stored order document is typed by the schema
  (\<open>step_doc\<close>), a step object built from the request body holds JavaScript
  values (\<open>step_obj\<close>). The source's field \<^verbatim>\<open>id\<close> is \<open>id'\<close> and
  \<^verbatim>\<open>total\<close> is \<open>total'\<close> here, the order's \<^verbatim>\<open>status\<close> is \<open>orderStatus\<close>.
\<close>

record ('n, 's, 'b) timeline_step =
  id' :: 'n
  title :: 's
  description :: 's
  estimatedDuration :: 's
  startDate :: 's
  finishDate :: 's
  status :: 's
  isCompleted :: 'b
  isInProgress :: 'b
  isLocked :: 'b

type_synonym step_doc = "(int, string, bool) timeline_step"
type_synonym step_obj = "(js_value, js_value, js_value) timeline_step"

record 'n progress =
  current :: 'n
  total' :: 'n

text \<open>
  The fields of \<^verbatim>\<open>orderSchema\<close> that the lifecycle operations read or write; customer,
  product and shipping details are not touched by them.
\<close>

record order =
  orderId :: string
  orderStatus :: string
  currentPhase :: string
  progress :: "int progress"
  timeline :: "step_doc list"
  lastUpdatedBy :: string

text \<open>
  The seven-step template \<^verbatim>\<open>defaultTimeline\<close>, written out in \<^verbatim>\<open>createOrder\<close> and again
  in \<^verbatim>\<open>updateOrder\<close> with the same content. A template entry has four fields only.
\<close>

record template_step =
  tpl_id :: int
  tpl_title :: string
  tpl_description :: string
  tpl_estimatedDuration :: string

definition defaultTimeline :: "template_step list" where
  "defaultTimeline =
     [\<lparr>tpl_id = 1, tpl_title = ''Offer Accepted'',
       tpl_description = ''Customer has approved the offer; order has been initiated.'',
       tpl_estimatedDuration = ''1 day''\<rparr>,
      \<lparr>tpl_id = 2, tpl_title = ''Mold / Product in Development'',
       tpl_description = ''Product or mold is being created.'',
       tpl_estimatedDuration = ''14 days''\<rparr>,
      \<lparr>tpl_id = 3, tpl_title = ''Sample Sent to Client'',
       tpl_description = ''Customer receives a sample. Approval required.'',
       tpl_estimatedDuration = ''3 days''\<rparr>,
      \<lparr>tpl_id = 4, tpl_title = ''Sample Approved'',
       tpl_description = ''Customer has approved the sample. Mass production begins.'',
       tpl_estimatedDuration = ''2 days''\<rparr>,
      \<lparr>tpl_id = 5, tpl_title = ''Production Phase'',
       tpl_description = ''Final product is being manufactured.'',
       tpl_estimatedDuration = ''21 days''\<rparr>,
      \<lparr>tpl_id = 6, tpl_title = ''Transport Phase'',
       tpl_description = ''Order has shipped. In transit to the destination country.'',
       tpl_estimatedDuration = ''7 days''\<rparr>,
      \<lparr>tpl_id = 7, tpl_title = ''Delivered to Final Location'',
       tpl_description = ''Order has been delivered to the specified location.'',
       tpl_estimatedDuration = ''1 day''\<rparr>]"

text \<open>
  A step document stored from the four template fields alone: every other field takes its
  default from \<^verbatim>\<open>timelineStepSchema\<close>.
\<close>

definition stored_step :: "template_step \<Rightarrow> step_doc" where
  "stored_step tpl =
     \<lparr>id' = tpl_id tpl, title = tpl_title tpl, description = tpl_description tpl,
      estimatedDuration = tpl_estimatedDuration tpl, startDate = [], finishDate = [],
      status = ''Locked'', isCompleted = False, isInProgress = False, isLocked = True\<rparr>"

section \<open>Order methods (models/Order.js)\<close>

text \<open>\<^verbatim>\<open>phaseStatusMap\<close> of \<^verbatim>\<open>orderSchema.methods.updateStatus\<close>.\<close>

definition phaseStatusMap :: "(int \<times> string) list" where
  "phaseStatusMap =
     [(1, ''Development''), (2, ''Development''), (3, ''In Progress''), (4, ''In Progress''),
      (5, ''Production''), (6, ''Shipped''), (7, ''Delivered'')]"

text \<open>\<^verbatim>\<open>this.status = phaseStatusMap[this.progress.current] || 'Development'\<close>\<close>

definition updateStatus :: "order \<Rightarrow> order" where
  "updateStatus this =
     this\<lparr>orderStatus :=
       (case map_of phaseStatusMap (current (progress this)) of
          Some s \<Rightarrow> s
        | None \<Rightarrow> ''Development'')\<rparr>"

text \<open>
  \<^verbatim>\<open>orderSchema.methods.advancePhase\<close>. \<open>today\<close> is the value of
  \<^verbatim>\<open>moment().format('M/D/YYYY')\<close>; both reads of the clock in one call are taken to fall
  on the same day. The two guards \<^verbatim>\<open>if (this.timeline[...])\<close> and the fallback
  \<^verbatim>\<open>?.title || this.currentPhase\<close> are the \<open>None\<close> branches and the test for an
  empty title.
\<close>

definition advancePhase :: "string \<Rightarrow> order \<Rightarrow> order" where
  "advancePhase today this =
     (if current (progress this) < total' (progress this) then
        let i = current (progress this) - 1;
            completed =
              (case item_at (timeline this) i of
                 Some step \<Rightarrow>
                   (timeline this)[nat i := step\<lparr>status := ''Completed'', isCompleted := True,
                                                 isInProgress := False, finishDate := today\<rparr>]
               | None \<Rightarrow> timeline this);
            next_current = current (progress this) + 1;
            j = next_current - 1;
            phase =
              (case item_at completed j of
                 Some step \<Rightarrow> if title step \<noteq> [] then title step else currentPhase this
               | None \<Rightarrow> currentPhase this);
            started =
              (case item_at completed j of
                 Some step \<Rightarrow>
                   completed[nat j := step\<lparr>status := ''In Progress'', isInProgress := True,
                                            isLocked := False, startDate := today\<rparr>]
               | None \<Rightarrow> completed)
        in updateStatus
             (this\<lparr>progress := (progress this)\<lparr>current := next_current\<rparr>,
                   currentPhase := phase, timeline := started\<rparr>)
      else this)"

section \<open>Phase operations of the controller (controllers/orderController.js)\<close>

text \<open>
  \<^verbatim>\<open>order.save()\<close> validates the document against \<^verbatim>\<open>orderSchema\<close> and stores it only
  when it is valid. On the fields of the record the schema requires: a non-empty
  \<^verbatim>\<open>orderId\<close>, a \<^verbatim>\<open>status\<close> from its enum, \<^verbatim>\<open>progress.current\<close> from 0 to 7, and for
  every step a non-empty title and description and a status from the enum of the step.
  The fields outside the record are read from the store and not touched by the handlers;
  they are taken to be valid.
\<close>

definition step_valid :: "step_doc \<Rightarrow> bool" where
  "step_valid step =
     (title step \<noteq> [] \<and> description step \<noteq> []
      \<and> status step \<in> set [''Locked'', ''In Progress'', ''Completed''])"

definition schema_valid :: "order \<Rightarrow> bool" where
  "schema_valid order =
     (orderId order \<noteq> []
      \<and> orderStatus order \<in>
          set [''Development'', ''In Progress'', ''Production'', ''Shipped'', ''Delivered'',
               ''Cancelled'']
      \<and> 0 \<le> current (progress order) \<and> current (progress order) \<le> 7
      \<and> list_all step_valid (timeline order))"

text \<open>
  A handler passes an error to \<^verbatim>\<open>next\<close>, either its own
  \<^verbatim>\<open>ErrorResponse(message, statusCode)\<close> or the ValidationError that \<^verbatim>\<open>order.save()\<close>
  throws (the error handler answers it with status 400), or it answers with
  \<^verbatim>\<open>res.status(code).json({success, message, data})\<close>. The handlers below take the result
  of \<^verbatim>\<open>findOrderByIdOrOrderId\<close> (\<open>None\<close> when no order matches) and return the
  document as the handler leaves it in memory together with the response. The document is
  stored exactly when the response is \<open>Success\<close>. The activity counter of the admin is
  outside the model.
\<close>

datatype response = ErrorResponse string nat | ValidationError | Success nat string order

text \<open>\<^verbatim>\<open>advanceOrderPhase\<close>\<close>

definition advanceOrderPhase ::
  "string \<Rightarrow> string \<Rightarrow> string \<Rightarrow> order option \<Rightarrow> order option \<times> response" where
  "advanceOrderPhase orderIdParam adminId today found =
     (case found of
        None \<Rightarrow> (None, ErrorResponse (''Order '' @ orderIdParam @ '' not found'') 404)
      | Some order \<Rightarrow>
          if current (progress order) \<ge> total' (progress order) then
            (Some order, ErrorResponse ''Order is already at the final phase'' 400)
          else
            let advanced = (advancePhase today order)\<lparr>lastUpdatedBy := adminId\<rparr>
            in if schema_valid advanced then
                 (Some advanced,
                  Success 200
                    (''Order '' @ orderId advanced @ '' advanced to '' @ currentPhase advanced)
                    advanced)
               else (Some advanced, ValidationError))"

text \<open>
  The \<^verbatim>\<open>forEach\<close> of \<^verbatim>\<open>updateOrderPhase\<close> under "Update timeline status", with
  \<open>currentIndex\<close> for \<^verbatim>\<open>order.progress.current - 1\<close>.
\<close>

definition updateTimelineStatus :: "int \<Rightarrow> step_doc list \<Rightarrow> step_doc list" where
  "updateTimelineStatus currentIndex items =
     map (\<lambda>(index, item).
            if int index < currentIndex then
              item\<lparr>status := ''Completed'', isCompleted := True,
                   isInProgress := False, isLocked := False\<rparr>
            else if int index = currentIndex then
              item\<lparr>status := ''In Progress'', isCompleted := False,
                   isInProgress := True, isLocked := False\<rparr>
            else
              item\<lparr>status := ''Locked'', isCompleted := False,
                   isInProgress := False, isLocked := True\<rparr>)
         (enumerate 0 items)"

text \<open>
  \<^verbatim>\<open>updateOrderPhase\<close>. \<open>phase\<close> is \<^verbatim>\<open>req.body.phase\<close>; a \<^verbatim>\<open>phase\<close> that is not a
  string equals no title and is answered like an unknown title. \<open>progress_in\<close> is
  \<^verbatim>\<open>req.body.progress\<close> when it is undefined (\<open>None\<close>) or a JSON integer. The route has
  no validator for it: a \<^verbatim>\<open>null\<close> progress acts as the integer 0, and a fractional or
  non-numeric progress is not covered here.
\<close>

definition updateOrderPhase ::
  "string \<Rightarrow> string \<Rightarrow> string \<Rightarrow> int option \<Rightarrow> order option \<Rightarrow> order option \<times> response" where
  "updateOrderPhase orderIdParam adminId phase progress_in found =
     (case found of
        None \<Rightarrow> (None, ErrorResponse (''Order '' @ orderIdParam @ '' not found'') 404)
      | Some order \<Rightarrow>
          let phaseIndex = findIndex (\<lambda>item. title item = phase) (timeline order) in
          if phaseIndex = -1 then (Some order, ErrorResponse ''Invalid phase specified'' 400)
          else
            let new_current =
                  (case progress_in of
                     Some p \<Rightarrow> min (max p 0) (total' (progress order))
                   | None \<Rightarrow> phaseIndex + 1);
                moved = order\<lparr>progress := (progress order)\<lparr>current := new_current\<rparr>,
                              currentPhase := phase, lastUpdatedBy := adminId\<rparr>;
                swept = moved\<lparr>timeline :=
                          updateTimelineStatus (current (progress moved) - 1) (timeline moved)\<rparr>;
                updated = updateStatus swept
            in if schema_valid updated then
                 (Some updated,
                  Success 200 (''Order '' @ orderId updated @ '' updated to '' @ phase) updated)
               else (Some updated, ValidationError))"

section \<open>The request body\<close>

text \<open>
  An entry of \<^verbatim>\<open>req.body.timeline\<close> is an object with its fields (\<open>Step\<close>) or a JSON
  primitive (\<open>Primitive\<close>): \<^verbatim>\<open>null\<close>, a boolean, a number or a string. Reading a
  field of \<^verbatim>\<open>null\<close> throws a TypeError; every field of another primitive is undefined.
\<close>

datatype js_entry = Step step_obj | Primitive js_value

datatype js_error = TypeError

definition no_fields :: step_obj where
  "no_fields =
     \<lparr>id' = JUndefined, title = JUndefined, description = JUndefined,
      estimatedDuration = JUndefined, startDate = JUndefined, finishDate = JUndefined,
      status = JUndefined, isCompleted = JUndefined, isInProgress = JUndefined,
      isLocked = JUndefined\<rparr>"

fun entry_fields :: "js_entry \<Rightarrow> js_error + step_obj" where
  "entry_fields (Step step) = Inr step"
| "entry_fields (Primitive v) =
     (if v = JNull \<or> v = JUndefined then Inl TypeError else Inr no_fields)"

fun entry_truthy :: "js_entry \<Rightarrow> bool" where
  "entry_truthy (Step step) = True"
| "entry_truthy (Primitive v) = truthy v"

text \<open>
  \<^verbatim>\<open>entry.f\<close> for a field \<open>f\<close> of an entry other than \<^verbatim>\<open>null\<close>: a primitive has
  none of the fields.
\<close>

fun entry_field :: "(step_obj \<Rightarrow> js_value) \<Rightarrow> js_entry \<Rightarrow> js_value" where
  "entry_field f (Step step) = f step"
| "entry_field f (Primitive v) = JUndefined"

text \<open>
  The part of the request body that the timeline logic of \<^verbatim>\<open>createOrder\<close> and
  \<^verbatim>\<open>updateOrder\<close> reads and writes. \<^verbatim>\<open>req.body.timeline\<close> is an array, or
  \<open>None\<close> when it is absent (the validators of both routes refuse a timeline that is
  not an array). The fields of \<^verbatim>\<open>req.body.progress\<close> are JavaScript values:
  the validators check them with \<^verbatim>\<open>isInt\<close> and do not convert them, so the handler
  receives a numeric string as a string. \<^verbatim>\<open>req.body.status\<close> is a string or absent;
  a status of another JSON type is not covered.
\<close>

record req_body =
  body_timeline :: "js_entry list option"
  body_progress :: "js_value progress option"
  body_status :: "string option"
  body_currentPhase :: js_value

section \<open>Validation of a create request (middleware/validation.js)\<close>

text \<open>
  \<^verbatim>\<open>isInt({min, max})\<close> on a field under \<^verbatim>\<open>optional()\<close>: an undefined field is skipped;
  any other value is turned into a string and must match \<^verbatim>\<open>/^[-+]?[0-9]+$/\<close> with a
  value from \<open>lo\<close> to \<open>hi\<close>. A number is its decimal string, \<^verbatim>\<open>null\<close> the empty
  string, a boolean \<^verbatim>\<open>true\<close> or \<^verbatim>\<open>false\<close>, an object \<^verbatim>\<open>[object Object]\<close>.
\<close>

fun optional_isInt :: "int \<Rightarrow> int \<Rightarrow> js_value \<Rightarrow> bool" where
  "optional_isInt lo hi JUndefined = True"
| "optional_isInt lo hi (JNum n) = (lo \<le> n \<and> n \<le> hi)"
| "optional_isInt lo hi (JStr s) =
     (case int_literal s of None \<Rightarrow> False | Some n \<Rightarrow> lo \<le> n \<and> n \<le> hi)"
| "optional_isInt lo hi v = False"

text \<open>
  The chains of \<^verbatim>\<open>validateCreateOrder\<close> on \<^verbatim>\<open>status\<close>, \<^verbatim>\<open>progress.current\<close> and
  \<^verbatim>\<open>progress.total\<close>, in the order of the source: the messages of the checks that fail.
  The chains on the other fields (customer, product, shipping, priority, notes and the
  texts of supplied timeline steps) are taken to pass.
\<close>

definition validateCreateOrder :: "req_body \<Rightarrow> string list" where
  "validateCreateOrder body =
     (case body_status body of
        None \<Rightarrow> []
      | Some s \<Rightarrow>
          if s \<in> set [''Development'', ''In Progress'', ''Production'', ''Shipped'',
                       ''Delivered'', ''Cancelled'']
          then [] else [''Invalid order status''])
     @ (case body_progress body of
          None \<Rightarrow> []
        | Some p \<Rightarrow>
            (if optional_isInt 0 7 (current p) then []
             else [''Progress current must be between 0 and 7''])
            @ (if optional_isInt 1 10 (total' p) then []
               else [''Progress total must be between 1 and 10'']))"

text \<open>\<^verbatim>\<open>errorMessages.join(', ')\<close>\<close>

fun join_messages :: "string list \<Rightarrow> string" where
  "join_messages [] = []"
| "join_messages [m] = m"
| "join_messages (m # ms) = m @ '', '' @ join_messages ms"

text \<open>
  \<^verbatim>\<open>handleValidationErrors\<close>: the error passed to \<^verbatim>\<open>next\<close>, or \<open>None\<close> when the
  request goes on to the handler.
\<close>

definition handleValidationErrors :: "string list \<Rightarrow> response option" where
  "handleValidationErrors errorMessages =
     (if errorMessages \<noteq> [] then Some (ErrorResponse (join_messages errorMessages) 400)
      else None)"

section \<open>Creating an order (createOrder)\<close>

text \<open>
  \<^verbatim>\<open>String.prototype.toLowerCase\<close> on the letters A to Z. A character outside ASCII never
  becomes one of the letters of the five status words, so it cannot make a string match.
\<close>

definition toLowerCase :: "string \<Rightarrow> string" where
  "toLowerCase s =
     map (\<lambda>c. case map_of (zip ''ABCDEFGHIJKLMNOPQRSTUVWXYZ'' ''abcdefghijklmnopqrstuvwxyz'') c of
                 Some l \<Rightarrow> l
               | None \<Rightarrow> c) s"

text \<open>\<^verbatim>\<open>switch (req.body.status?.toLowerCase())\<close>: the value given to \<^verbatim>\<open>progress.current\<close>.\<close>

definition statusToProgress :: "string option \<Rightarrow> int" where
  "statusToProgress st =
     (case map_option toLowerCase st of
        None \<Rightarrow> 1
      | Some s \<Rightarrow>
          if s = ''development'' then 2
          else if s = ''in progress'' then 4
          else if s = ''production'' then 5
          else if s = ''shipped'' then 6
          else if s = ''delivered'' then 7
          else 1)"

text \<open>
  "Set default progress if not provided" and "Map order status to progress if progress not
  explicitly set": \<^verbatim>\<open>req.body.progress\<close> after both steps. The test is
  \<^verbatim>\<open>!current || current === 1\<close>: the string \<^verbatim>\<open>'0'\<close> is truthy and the string
  \<^verbatim>\<open>'1'\<close> is not the number 1, so neither is replaced.
\<close>

definition defaultProgress :: "js_value progress" where
  "defaultProgress = \<lparr>current = JNum 1, total' = JNum 7\<rparr>"

definition resolveProgress :: "req_body \<Rightarrow> js_value progress" where
  "resolveProgress body =
     (let given = (case body_progress body of None \<Rightarrow> defaultProgress | Some p \<Rightarrow> p)
      in if \<not> truthy (current given) \<or> js_strict_equal 1 (current given)
         then given\<lparr>current := JNum (statusToProgress (body_status body))\<rparr>
         else given)"

text \<open>\<^verbatim>\<open>{...step}\<close>: the four template fields; the other fields stay undefined.\<close>

definition spread :: "template_step \<Rightarrow> step_obj" where
  "spread step =
     \<lparr>id' = JNum (tpl_id step), title = JStr (tpl_title step),
      description = JStr (tpl_description step),
      estimatedDuration = JStr (tpl_estimatedDuration step),
      startDate = JUndefined, finishDate = JUndefined, status = JUndefined,
      isCompleted = JUndefined, isInProgress = JUndefined, isLocked = JUndefined\<rparr>"

text \<open>
  "Set timeline step status based on progress": \<^verbatim>\<open>defaultTimeline.map((step, index) => ...)\<close>
  for \<^verbatim>\<open>currentProgress = req.body.progress.current\<close>, with the tests
  \<^verbatim>\<open>stepPosition < currentProgress\<close> and \<^verbatim>\<open>stepPosition === currentProgress\<close>.
\<close>

definition timelineForProgress :: "js_value \<Rightarrow> step_obj list" where
  "timelineForProgress currentProgress =
     map (\<lambda>(index, step).
            let stepPosition = int index + 1 in
            if js_less stepPosition currentProgress then
              (spread step)\<lparr>status := JStr ''Completed'', isCompleted := JBool True,
                            isInProgress := JBool False, isLocked := JBool False\<rparr>
            else if js_strict_equal stepPosition currentProgress then
              (spread step)\<lparr>status := JStr ''In Progress'', isCompleted := JBool False,
                            isInProgress := JBool True, isLocked := JBool False\<rparr>
            else
              (spread step)\<lparr>status := JStr ''Locked'', isCompleted := JBool False,
                            isInProgress := JBool False, isLocked := JBool True\<rparr>)
         (enumerate 0 defaultTimeline)"


text \<open>
  \<^verbatim>\<open>createOrder\<close> from "Set default timeline if not provided" to "Set current phase based
  on progress": the request body as it is handed to \<^verbatim>\<open>Order.create\<close>, which casts the
  cursor to a number when it stores the order. In "Set current phase" the index is
  \<^verbatim>\<open>(req.body.progress.current || 1) - 1\<close>, and an entry is used only when it is truthy.
\<close>

definition createOrder_body :: "req_body \<Rightarrow> req_body" where
  "createOrder_body body =
     (let with_timeline =
            (if body_timeline body = None \<or> body_timeline body = Some [] then
               let p = resolveProgress body in
               body\<lparr>body_progress := Some p,
                    body_timeline := Some (map Step (timelineForProgress (current p)))\<rparr>
             else body);
          with_progress =
            (if body_progress with_timeline = None
             then with_timeline\<lparr>body_progress := Some defaultProgress\<rparr>
             else with_timeline)
      in if \<not> truthy (body_currentPhase with_progress) then
           (case (body_timeline with_progress, body_progress with_progress) of
              (Some entries, Some p) \<Rightarrow>
                (case toNumber (js_or (current p) (JNum 1)) of
                   Some n \<Rightarrow>
                     (case item_at entries (n - 1) of
                        Some entry \<Rightarrow>
                          if entry_truthy entry
                          then with_progress\<lparr>body_currentPhase := entry_field title entry\<rparr>
                          else with_progress
                      | None \<Rightarrow> with_progress)
                 | None \<Rightarrow> with_progress)
            | _ \<Rightarrow> with_progress)
         else with_progress)"

text \<open>
  The route \<^verbatim>\<open>POST /api/orders\<close> up to \<^verbatim>\<open>Order.create\<close>: the validation, then the
  handler.
\<close>

definition createOrder_request :: "req_body \<Rightarrow> response + req_body" where
  "createOrder_request body =
     (case handleValidationErrors (validateCreateOrder body) of
        Some err \<Rightarrow> Inl err
      | None \<Rightarrow> Inr (createOrder_body body))"

section \<open>Updating an order (updateOrder)\<close>

text \<open>The decimal digits of \<^verbatim>\<open>index + 1\<close> in the template literal \<^verbatim>\<open>`Step ${index + 1}`\<close>.\<close>

fun decimal :: "nat \<Rightarrow> string" where
  "decimal n = (if n < 10 then [''0123456789'' ! n]
                else decimal (n div 10) @ [''0123456789'' ! (n mod 10)])"

text \<open>\<^verbatim>\<open>defaultTimeline[index]?.f\<close> for a field \<open>f\<close> of the template.\<close>

definition template_field :: "(template_step \<Rightarrow> string) \<Rightarrow> nat \<Rightarrow> js_value" where
  "template_field f index =
     (case item_at defaultTimeline (int index) of Some tpl \<Rightarrow> JStr (f tpl) | None \<Rightarrow> JUndefined)"

text \<open>The arrow function of \<^verbatim>\<open>normalizedIncoming = req.body.timeline.map((step, index) => ...)\<close>.\<close>

definition normalizeStep :: "nat \<Rightarrow> step_obj \<Rightarrow> step_obj" where
  "normalizeStep index step =
     \<lparr>id' = js_or (id' step) (JNum (int index + 1)),
      title = js_or (js_or (title step) (template_field tpl_title index))
                    (JStr (''Step '' @ decimal (index + 1))),
      description = js_or (js_or (description step) (template_field tpl_description index))
                          (JStr []),
      estimatedDuration =
        js_or (js_or (estimatedDuration step) (template_field tpl_estimatedDuration index))
              (JStr []),
      startDate = js_or (startDate step) (JStr []),
      finishDate = js_or (finishDate step) (JStr []),
      status = js_or (status step)
                 (if truthy (isCompleted step) then JStr ''Completed''
                  else if truthy (isInProgress step) then JStr ''In Progress''
                  else JStr ''Locked''),
      isCompleted = js_or (isCompleted step) (JBool False),
      isInProgress = js_or (isInProgress step) (JBool False),
      isLocked = JBool (isLocked step \<noteq> JBool False)\<rparr>"

text \<open>
  The \<^verbatim>\<open>map\<close> itself, with the running index. Reading \<^verbatim>\<open>step.id\<close> of a \<^verbatim>\<open>null\<close> entry
  throws a TypeError, which ends the handler.
\<close>

fun normalizedIncoming_from :: "nat \<Rightarrow> js_entry list \<Rightarrow> js_error + step_obj list" where
  "normalizedIncoming_from index [] = Inr []"
| "normalizedIncoming_from index (entry # rest) =
     (case entry_fields entry of
        Inl e \<Rightarrow> Inl e
      | Inr step \<Rightarrow>
          (case normalizedIncoming_from (Suc index) rest of
             Inl e \<Rightarrow> Inl e
           | Inr steps \<Rightarrow> Inr (normalizeStep index step # steps)))"

definition normalizedIncoming :: "js_entry list \<Rightarrow> js_error + step_obj list" where
  "normalizedIncoming entries = normalizedIncoming_from 0 entries"

text \<open>
  The value of \<^verbatim>\<open>normalizedIncoming\<close> for a timeline whose entries are all objects: the
  \<^verbatim>\<open>map\<close> without the branch of the TypeError.
\<close>

definition normalized :: "step_obj list \<Rightarrow> step_obj list" where
  "normalized steps = map (\<lambda>(i, step). normalizeStep i step) (enumerate 0 steps)"

text \<open>\<^verbatim>\<open>enforcedTimeline = defaultTimeline.map((tpl, idx) => ...)\<close>\<close>

definition enforcedTimeline :: "step_obj list \<Rightarrow> step_obj list" where
  "enforcedTimeline incoming =
     map (\<lambda>(idx, tpl).
            case item_at incoming (int idx) of
              Some provided \<Rightarrow>
                \<lparr>id' = JNum (tpl_id tpl),
                 title = js_or (title provided) (JStr (tpl_title tpl)),
                 description = js_or (description provided) (JStr (tpl_description tpl)),
                 estimatedDuration =
                   js_or (estimatedDuration provided) (JStr (tpl_estimatedDuration tpl)),
                 startDate = js_or (startDate provided) (JStr []),
                 finishDate = js_or (finishDate provided) (JStr []),
                 status = status provided,
                 isCompleted = isCompleted provided,
                 isInProgress = isInProgress provided,
                 isLocked = isLocked provided\<rparr>
            | None \<Rightarrow>
                \<lparr>id' = JNum (tpl_id tpl), title = JStr (tpl_title tpl),
                 description = JStr (tpl_description tpl),
                 estimatedDuration = JStr (tpl_estimatedDuration tpl),
                 startDate = JStr [], finishDate = JStr [],
                 status = JStr ''Locked'', isCompleted = JBool False,
                 isInProgress = JBool False, isLocked = JBool True\<rparr>)
         (enumerate 0 defaultTimeline)"

text \<open>
  "Update progress based on completed and in-progress steps, clamp 1..7":
  \<^verbatim>\<open>Math.min(Math.max(computedCurrent, 1), 7)\<close>.
\<close>

definition computedCurrent :: "step_obj list \<Rightarrow> int" where
  "computedCurrent enforced =
     (let completedSteps = length (filter (\<lambda>step. truthy (isCompleted step)) enforced);
          inProgressSteps = length (filter (\<lambda>step. truthy (isInProgress step)) enforced)
      in int completedSteps + (if inProgressSteps > 0 then 1 else 0))"

definition recomputedCurrent :: "step_obj list \<Rightarrow> int" where
  "recomputedCurrent enforced = min (max (computedCurrent enforced) 1) 7"

text \<open>"Ensure only one step is In Progress (the current one)": the \<^verbatim>\<open>forEach\<close>.\<close>

definition ensureOneInProgress :: "int \<Rightarrow> step_obj list \<Rightarrow> step_obj list" where
  "ensureOneInProgress currentIndex items =
     map (\<lambda>(index, item).
            if int index < currentIndex then
              item\<lparr>status := JStr ''Completed'', isCompleted := JBool True,
                   isInProgress := JBool False, isLocked := JBool False\<rparr>
            else if int index = currentIndex then
              item\<lparr>status := JStr ''In Progress'', isCompleted := JBool False,
                   isInProgress := JBool True, isLocked := JBool False\<rparr>
            else
              item\<lparr>status := JStr ''Locked'', isCompleted := JBool False,
                   isInProgress := JBool False, isLocked := JBool True\<rparr>)
         (enumerate 0 items)"

text \<open>
  "Update progress-based status if not explicitly provided". \<^verbatim>\<open>progressPercent\<close> is
  \<^verbatim>\<open>(current / total) * 100\<close>, computed here in exact rational arithmetic. Where the
  JavaScript division has no rational value the cases are written out: an operand that is
  not a number gives NaN and \<open>0 / 0\<close> gives NaN (every comparison false), \<open>c / 0\<close> is
  \<open>Infinity\<close> for positive \<open>c\<close> and \<open>-Infinity\<close> for negative \<open>c\<close>.
\<close>

definition statusFromPercentage :: "js_value progress \<Rightarrow> string" where
  "statusFromPercentage p =
     (case (toNumber (current p), toNumber (total' p)) of
        (Some c, Some t) \<Rightarrow>
          if t = 0 then (if c > 0 then ''Delivered'' else ''Development'')
          else
            let progressPercent = (of_int c / of_int t) * (100 :: rat) in
            if progressPercent \<ge> 100 then ''Delivered''
            else if progressPercent \<ge> 85 then ''Shipped''
            else if progressPercent \<ge> 70 then ''Production''
            else if progressPercent \<ge> 30 then ''In Progress''
            else ''Development''
      | _ \<Rightarrow> ''Development'')"

text \<open>
  \<^verbatim>\<open>updateOrder\<close> from "Handle timeline updates" to "Update progress-based status": the
  request body as it is handed to the store, or the TypeError of a \<^verbatim>\<open>null\<close> entry.
  A timeline that is absent or not an array is \<open>None\<close>.
\<close>

definition updateOrder_timeline :: "req_body \<Rightarrow> js_error + req_body" where
  "updateOrder_timeline body =
     (case body_timeline body of
        None \<Rightarrow> Inr body
      | Some entries \<Rightarrow>
          (case normalizedIncoming entries of
             Inl e \<Rightarrow> Inl e
           | Inr incoming \<Rightarrow>
               let enforced = enforcedTimeline incoming;
                   given = (case body_progress body of
                              None \<Rightarrow> \<lparr>current = JUndefined, total' = JUndefined\<rparr>
                            | Some p \<Rightarrow> p);
                   new_current = recomputedCurrent enforced;
                   currentIndex = new_current - 1;
                   swept = ensureOneInProgress currentIndex enforced
               in Inr (body\<lparr>body_progress :=
                              Some (given\<lparr>current := JNum new_current, total' := JNum 7\<rparr>),
                            body_timeline := Some (map Step swept),
                            body_currentPhase :=
                              js_or (case item_at swept currentIndex of
                                       Some step \<Rightarrow> title step
                                     | None \<Rightarrow> JUndefined)
                                    (JStr ''Offer Accepted'')\<rparr>)))"

definition updateOrder_status :: "req_body \<Rightarrow> req_body" where
  "updateOrder_status body =
     (case body_progress body of
        Some p \<Rightarrow>
          if body_status body = None \<or> body_status body = Some []
          then body\<lparr>body_status := Some (statusFromPercentage p)\<rparr>
          else body
      | None \<Rightarrow> body)"

definition updateOrder_body :: "req_body \<Rightarrow> js_error + req_body" where
  "updateOrder_body body =
     (case updateOrder_timeline body of
        Inl e \<Rightarrow> Inl e
      | Inr with_timeline \<Rightarrow> Inr (updateOrder_status with_timeline))"

section \<open>Sample data\<close>

text \<open>
  A stored order at cursor \<open>k\<close> of \<open>t\<close>: the seven template steps, the one at the
  cursor in progress.
\<close>

definition stored_order :: "int \<Rightarrow> int \<Rightarrow> order" where
  "stored_order k t =
     \<lparr>orderId = ''ORD-2026-001'', orderStatus = ''Development'',
      currentPhase = ''Offer Accepted'', progress = \<lparr>current = k, total' = t\<rparr>,
      timeline = updateTimelineStatus (k - 1) (map stored_step defaultTimeline),
      lastUpdatedBy = ''admin-1''\<rparr>"

text \<open>A request body with no field set.\<close>

definition empty_body :: req_body where
  "empty_body =
     \<lparr>body_timeline = None, body_progress = None, body_status = None,
      body_currentPhase = JUndefined\<rparr>"

text \<open>
  A request timeline of four entries: the first three flagged completed, the fourth flagged
  in progress, nothing else set.
\<close>

definition three_done_fourth_active :: "step_obj list" where
  "three_done_fourth_active =
     [no_fields\<lparr>isCompleted := JBool True\<rparr>, no_fields\<lparr>isCompleted := JBool True\<rparr>,
      no_fields\<lparr>isCompleted := JBool True\<rparr>, no_fields\<lparr>isInProgress := JBool True\<rparr>]"

text \<open>A request timeline of one entry that carries a title of the caller's own.\<close>

definition renamed_first_step :: "step_obj list" where
  "renamed_first_step = [no_fields\<lparr>title := JStr ''Deposit Received'', isInProgress := JBool True\<rparr>]"

text \<open>A request timeline of one entry flagged both completed and in progress.\<close>

definition done_and_active :: "step_obj list" where
  "done_and_active = [no_fields\<lparr>isCompleted := JBool True, isInProgress := JBool True\<rparr>]"

text \<open>
  A request timeline of two entries, each with a title and a description of its own, both
  flagged in progress.
\<close>

definition two_active :: "js_entry list" where
  "two_active =
     [Step (no_fields\<lparr>id' := JNum 1, title := JStr ''Design'', description := JStr ''Drawing'',
                      status := JStr ''In Progress'', isInProgress := JBool True,
                      isLocked := JBool False\<rparr>),
      Step (no_fields\<lparr>id' := JNum 2, title := JStr ''Tooling'', description := JStr ''Mold'',
                      status := JStr ''In Progress'', isInProgress := JBool True,
                      isLocked := JBool False\<rparr>)]"

text \<open>
  A stored order whose first step has been given the title of the fifth, so that two steps
  are titled "Production Phase".
\<close>

definition relabelled_order :: order where
  "relabelled_order =
     (stored_order 3 7)\<lparr>timeline :=
        (timeline (stored_order 3 7))
          [0 := (timeline (stored_order 3 7) ! 0)\<lparr>title := ''Production Phase''\<rparr>]\<rparr>"

text \<open>A create payload whose cursor is the string "6", with no timeline and no status.\<close>

definition string_cursor_body :: req_body where
  "string_cursor_body = empty_body\<lparr>body_progress := Some \<lparr>current = JStr ''6'', total' = JUndefined\<rparr>\<rparr>"


section \<open>Advancing to the next phase\<close>

lemma status_table:
  assumes "1 \<le> k" and "k < 7"
  shows "(case map_of phaseStatusMap (k + 1) of Some s \<Rightarrow> s | None \<Rightarrow> ''Development'') =
         (if k + 1 = 2 then ''Development''
          else if k + 1 = 3 \<or> k + 1 = 4 then ''In Progress''
          else if k + 1 = 5 then ''Production''
          else if k + 1 = 6 then ''Shipped''
          else ''Delivered'')"
proof -
  from assms consider "k = 1" | "k = 2" | "k = 3" | "k = 4" | "k = 5" | "k = 6" by arith
  then show ?thesis by cases (simp_all add: phaseStatusMap_def)
qed

lemmas advance_unfold = advancePhase_def Let_def updateStatus_def item_at_def

lemmas sample_unfold =
  stored_order_def updateTimelineStatus_def defaultTimeline_def stored_step_def
  enumerate_eq_zip upt_rec

lemma advancePhase_cursor:
  "current (progress this) < total' (progress this) \<Longrightarrow>
   current (progress (advancePhase today this)) = current (progress this) + 1"
  by (simp add: advance_unfold)

lemma advancePhase_length:
  "length (timeline (advancePhase today this)) = length (timeline this)"
  by (simp add: advance_unfold split: option.splits)

lemma advancePhase_finished_step:
  assumes "1 \<le> current (progress this)"
    and "current (progress this) < total' (progress this)"
    and "current (progress this) < int (length (timeline this))"
  shows "status (timeline (advancePhase today this) ! nat (current (progress this) - 1)) =
           ''Completed''
       \<and> isCompleted (timeline (advancePhase today this) ! nat (current (progress this) - 1))
       \<and> \<not> isInProgress (timeline (advancePhase today this) ! nat (current (progress this) - 1))"
proof -
  have "nat (current (progress this)) \<noteq> nat (current (progress this) - 1)"
    using assms(1) by simp
  with assms show ?thesis by (simp add: advance_unfold)
qed

lemma advancePhase_started_step:
  assumes "1 \<le> current (progress this)"
    and "current (progress this) < total' (progress this)"
    and "current (progress this) < int (length (timeline this))"
  shows "status (timeline (advancePhase today this) ! nat (current (progress this))) =
           ''In Progress''
       \<and> isInProgress (timeline (advancePhase today this) ! nat (current (progress this)))
       \<and> \<not> isLocked (timeline (advancePhase today this) ! nat (current (progress this)))"
  using assms by (simp add: advance_unfold)

lemma advancePhase_phase:
  assumes "1 \<le> current (progress this)"
    and "current (progress this) < total' (progress this)"
    and "current (progress this) < int (length (timeline this))"
  shows "currentPhase (advancePhase today this) =
           (if title (timeline this ! nat (current (progress this))) = [] then currentPhase this
            else title (timeline this ! nat (current (progress this))))"
proof -
  have "nat (current (progress this)) \<noteq> nat (current (progress this) - 1)"
    using assms(1) by simp
  with assms show ?thesis by (simp add: advance_unfold)
qed

lemma advancePhase_status:
  assumes "current (progress this) < total' (progress this)"
  shows "orderStatus (advancePhase today this) =
           (case map_of phaseStatusMap (current (progress this) + 1) of
              Some s \<Rightarrow> s
            | None \<Rightarrow> ''Development'')"
  using assms by (simp add: advance_unfold)

text \<open>
  Claim C1, as the code has it. For an order with a 7-step timeline at cursor \<open>k\<close> with
  \<open>1 \<le> k < progress.total\<close> and \<open>k < 7\<close> (the step at index \<open>k\<close> exists),
  \<^verbatim>\<open>advancePhase\<close> moves the cursor to \<open>k + 1\<close>, marks the step at index \<open>k - 1\<close>
  Completed (\<open>isCompleted\<close> true, \<open>isInProgress\<close> false), marks the step at index \<open>k\<close>
  In Progress (\<open>isInProgress\<close> true, \<open>isLocked\<close> false), sets \<open>currentPhase\<close> to the title
  of the step at index \<open>k\<close> (an empty title leaves it as it was) and sets the status to the
  entry of the table for \<open>k + 1\<close>: 2 Development, 3 and 4 In Progress, 5 Production,
  6 Shipped, 7 Delivered.
\<close>

theorem advancePhase_inside_timeline:
  assumes "length (timeline this) = 7" and "current (progress this) = k"
    and "1 \<le> k" and "k < total' (progress this)" and "k < 7"
  shows "current (progress (advancePhase today this)) = k + 1
       \<and> length (timeline (advancePhase today this)) = 7
       \<and> status (timeline (advancePhase today this) ! nat (k - 1)) = ''Completed''
       \<and> isCompleted (timeline (advancePhase today this) ! nat (k - 1))
       \<and> \<not> isInProgress (timeline (advancePhase today this) ! nat (k - 1))
       \<and> status (timeline (advancePhase today this) ! nat k) = ''In Progress''
       \<and> isInProgress (timeline (advancePhase today this) ! nat k)
       \<and> \<not> isLocked (timeline (advancePhase today this) ! nat k)
       \<and> currentPhase (advancePhase today this) =
           (if title (timeline this ! nat k) = [] then currentPhase this
            else title (timeline this ! nat k))
       \<and> orderStatus (advancePhase today this) =
           (if k + 1 = 2 then ''Development''
            else if k + 1 = 3 \<or> k + 1 = 4 then ''In Progress''
            else if k + 1 = 5 then ''Production''
            else if k + 1 = 6 then ''Shipped''
            else ''Delivered'')"
proof -
  have a: "1 \<le> current (progress this)" "current (progress this) < total' (progress this)"
    "current (progress this) < int (length (timeline this))"
    using assms by simp_all
  show ?thesis
    using advancePhase_cursor[OF a(2), of today] advancePhase_length[of today this]
      advancePhase_finished_step[OF a, of today] advancePhase_started_step[OF a, of today]
      advancePhase_phase[OF a, of today] advancePhase_status[OF a(2), of today]
      status_table[OF assms(3) assms(5)] assms(1,2)
    by simp
qed

lemma stored_order_3:
  "length (timeline (stored_order 3 7)) = 7 \<and> current (progress (stored_order 3 7)) = 3
   \<and> total' (progress (stored_order 3 7)) = 7
   \<and> title (timeline (stored_order 3 7) ! 3) = ''Sample Approved''"
  by (simp add: sample_unfold)

text \<open>The stored order at cursor 3 of 7 advances to cursor 4, "Sample Approved", In Progress.\<close>

theorem advancePhase_inside_timeline_witness:
  "current (progress (advancePhase ''11/3/2026'' (stored_order 3 7))) = 4
   \<and> isCompleted (timeline (advancePhase ''11/3/2026'' (stored_order 3 7)) ! 2)
   \<and> isInProgress (timeline (advancePhase ''11/3/2026'' (stored_order 3 7)) ! 3)
   \<and> currentPhase (advancePhase ''11/3/2026'' (stored_order 3 7)) = ''Sample Approved''
   \<and> orderStatus (advancePhase ''11/3/2026'' (stored_order 3 7)) = ''In Progress''"
  using advancePhase_inside_timeline[of "stored_order 3 7" 3 "''11/3/2026''"] stored_order_3
  by simp

text \<open>
  With \<open>progress.total = 10\<close> the cursor 7 satisfies \<open>1 \<le> k < progress.total\<close> on a 7-step
  timeline. \<^verbatim>\<open>advancePhase\<close> then moves the cursor to 8, where the timeline has no step:
  no step is in progress afterwards, \<open>currentPhase\<close> keeps its value, and the status is
  the fallback Development, the table having no entry for 8.
\<close>

theorem advancePhase_past_timeline_counterexample:
  "length (timeline (stored_order 7 10)) = 7
   \<and> 1 \<le> current (progress (stored_order 7 10))
   \<and> current (progress (stored_order 7 10)) < total' (progress (stored_order 7 10))
   \<and> current (progress (advancePhase ''11/3/2026'' (stored_order 7 10))) = 8
   \<and> item_at (timeline (advancePhase ''11/3/2026'' (stored_order 7 10))) 7 = None
   \<and> map isInProgress (timeline (advancePhase ''11/3/2026'' (stored_order 7 10))) =
       [False, False, False, False, False, False, False]
   \<and> currentPhase (advancePhase ''11/3/2026'' (stored_order 7 10)) =
       currentPhase (stored_order 7 10)
   \<and> map_of phaseStatusMap 8 = None
   \<and> orderStatus (advancePhase ''11/3/2026'' (stored_order 7 10)) = ''Development''"
  by (simp add: advance_unfold sample_unfold phaseStatusMap_def)

text \<open>
  Claim C2. For every order with \<open>progress.current \<ge> progress.total\<close> the advance-phase
  operation answers with the error "Order is already at the final phase" and status code
  400, and the order is the one that was found, unmodified; the method \<^verbatim>\<open>advancePhase\<close>
  itself leaves such an order as it is.
\<close>

theorem advanceOrderPhase_final_phase:
  assumes "current (progress order) \<ge> total' (progress order)"
  shows "advanceOrderPhase orderIdParam adminId today (Some order) =
           (Some order, ErrorResponse ''Order is already at the final phase'' 400)
       \<and> advancePhase today order = order"
  using assms by (simp add: advanceOrderPhase_def advancePhase_def)

theorem advanceOrderPhase_final_phase_witness:
  "advanceOrderPhase ''ORD-2026-001'' ''admin-2'' ''11/3/2026'' (Some (stored_order 7 7)) =
     (Some (stored_order 7 7), ErrorResponse ''Order is already at the final phase'' 400)
   \<and> advancePhase ''11/3/2026'' (stored_order 7 7) = stored_order 7 7"
  using advanceOrderPhase_final_phase
          [of "stored_order 7 7" "''ORD-2026-001''" "''admin-2''" "''11/3/2026''"]
  by (simp add: stored_order_def)

text \<open>
  At cursor 7 of 10 the guard lets the advance through; the document then has cursor 8, which
  the schema refuses, so \<^verbatim>\<open>save\<close> throws and the handler answers with its
  ValidationError.
\<close>

lemma advanceOrderPhase_refused_by_schema:
  "snd (advanceOrderPhase ''ORD-2026-001'' ''admin-2'' ''11/3/2026'' (Some (stored_order 7 10))) =
     ValidationError"
  by code_simp

section \<open>The default timeline of a new order\<close>


lemma timelineForProgress_length: "length (timelineForProgress v) = 7"
  by (simp add: timelineForProgress_def defaultTimeline_def)



text \<open>
  Claim C3, where the code departs from it. The validation checks the cursor with
  \<^verbatim>\<open>isInt\<close> and does not convert it, so the JSON string "6" reaches the handler as a
  string. \<^verbatim>\<open>stepPosition < "6"\<close> compares numbers, \<^verbatim>\<open>stepPosition === "6"\<close> is never
  true: the timeline built for the cursor "6" has steps 1 to 5 Completed and steps 6 and 7
  Locked, and no step In Progress.
\<close>

theorem createOrder_string_cursor:
  "validateCreateOrder string_cursor_body = []
   \<and> createOrder_request string_cursor_body = Inr (createOrder_body string_cursor_body)
   \<and> body_progress (createOrder_body string_cursor_body) =
       Some \<lparr>current = JStr ''6'', total' = JUndefined\<rparr>
   \<and> body_timeline (createOrder_body string_cursor_body) =
       Some (map Step (timelineForProgress (JStr ''6'')))
   \<and> map status (timelineForProgress (JStr ''6'')) =
       [JStr ''Completed'', JStr ''Completed'', JStr ''Completed'', JStr ''Completed'',
        JStr ''Completed'', JStr ''Locked'', JStr ''Locked'']
   \<and> map isInProgress (timelineForProgress (JStr ''6'')) =
       [JBool False, JBool False, JBool False, JBool False, JBool False, JBool False,
        JBool False]"
  by code_simp

text \<open>
  The cursor "0" arrives as a string too: it is truthy, so it is not replaced from the
  status, and the timeline built for it has seven Locked steps.
\<close>

lemma createOrder_string_zero_cursor:
  "validateCreateOrder (empty_body\<lparr>body_progress := Some \<lparr>current = JStr ''0'', total' = JUndefined\<rparr>\<rparr>) = []
   \<and> current (resolveProgress
         (empty_body\<lparr>body_progress := Some \<lparr>current = JStr ''0'', total' = JUndefined\<rparr>\<rparr>)) =
       JStr ''0''
   \<and> map status (timelineForProgress (JStr ''0'')) =
       [JStr ''Locked'', JStr ''Locked'', JStr ''Locked'', JStr ''Locked'', JStr ''Locked'',
        JStr ''Locked'', JStr ''Locked'']"
  by code_simp

section \<open>The initial cursor of a new order\<close>


lemma statusToProgress_words:
  "statusToProgress None = 1 \<and> statusToProgress (Some ''Development'') = 2
   \<and> statusToProgress (Some ''In Progress'') = 4 \<and> statusToProgress (Some ''Production'') = 5
   \<and> statusToProgress (Some ''Shipped'') = 6 \<and> statusToProgress (Some ''Delivered'') = 7
   \<and> statusToProgress (Some ''Cancelled'') = 1"
  by (simp add: statusToProgress_def toLowerCase_def)

lemma createOrder_body_unset_cursor:
  assumes "body_timeline body = None \<or> body_timeline body = Some []"
    and "(case body_progress body of None \<Rightarrow> defaultProgress | Some p \<Rightarrow> p) = given"
    and "\<not> truthy (current given) \<or> current given = JNum 1"
  shows "body_progress (createOrder_body body) =
           Some (given\<lparr>current := JNum (statusToProgress (body_status body))\<rparr>)
       \<and> body_timeline (createOrder_body body) =
           Some (map Step (timelineForProgress (JNum (statusToProgress (body_status body)))))"
  using assms
  by (auto simp add: createOrder_body_def resolveProgress_def Let_def js_strict_equal_def
      split: option.splits)

lemma validateCreateOrder_no_progress:
  assumes "body_progress body = None"
  shows "validateCreateOrder body =
           (if body_status body \<in>
                 set [None, Some ''Development'', Some ''In Progress'', Some ''Production'',
                      Some ''Shipped'', Some ''Delivered'', Some ''Cancelled'']
            then [] else [''Invalid order status''])"
  using assms by (auto simp add: validateCreateOrder_def split: option.splits)

text \<open>
  Claim C6, as the code has it. For a create payload with no timeline and no progress, whose
  status is a string or absent, the validation lets the request through exactly when the
  status is absent or one of the six
  words Development, In Progress, Production, Shipped, Delivered and Cancelled, written
  exactly so. The cursor is then 2, 4, 5, 6 and 7 for the first five and 1 for Cancelled and
  for an absent status, and the total is 7. Any other status, in other letter case or with
  blanks around it, is answered with "Invalid order status" and status 400.
\<close>

theorem createOrder_status_cursor:
  assumes "body_timeline body = None \<or> body_timeline body = Some []"
    and "body_progress body = None"
  shows "(body_status body \<in>
            set [None, Some ''Development'', Some ''In Progress'', Some ''Production'',
                 Some ''Shipped'', Some ''Delivered'', Some ''Cancelled'']
          \<longrightarrow> createOrder_request body = Inr (createOrder_body body)
              \<and> body_progress (createOrder_body body) =
                  Some \<lparr>current =
                          JNum (if body_status body = Some ''Development'' then 2
                                else if body_status body = Some ''In Progress'' then 4
                                else if body_status body = Some ''Production'' then 5
                                else if body_status body = Some ''Shipped'' then 6
                                else if body_status body = Some ''Delivered'' then 7
                                else 1),
                        total' = JNum 7\<rparr>)
       \<and> (body_status body \<notin>
            set [None, Some ''Development'', Some ''In Progress'', Some ''Production'',
                 Some ''Shipped'', Some ''Delivered'', Some ''Cancelled'']
          \<longrightarrow> createOrder_request body = Inl (ErrorResponse ''Invalid order status'' 400))"
proof -
  have given: "(case body_progress body of None \<Rightarrow> defaultProgress | Some p \<Rightarrow> p) = defaultProgress"
    using assms(2) by simp
  have unset: "\<not> truthy (current defaultProgress) \<or> current defaultProgress = JNum 1"
    by (simp add: defaultProgress_def)
  have progress: "body_progress (createOrder_body body) =
      Some \<lparr>current = JNum (statusToProgress (body_status body)), total' = JNum 7\<rparr>"
    using createOrder_body_unset_cursor[OF assms(1) given unset]
    by (simp add: defaultProgress_def)
  show ?thesis
    using progress statusToProgress_words
    by (auto simp add: createOrder_request_def handleValidationErrors_def
        validateCreateOrder_no_progress[OF assms(2)])
qed

text \<open>The status "Shipped" starts at cursor 6 of 7; "shipped" is refused.\<close>

theorem createOrder_status_cursor_witness:
  "createOrder_request (empty_body\<lparr>body_status := Some ''Shipped''\<rparr>) =
     Inr (createOrder_body (empty_body\<lparr>body_status := Some ''Shipped''\<rparr>))
   \<and> body_progress (createOrder_body (empty_body\<lparr>body_status := Some ''Shipped''\<rparr>)) =
     Some \<lparr>current = JNum 6, total' = JNum 7\<rparr>
   \<and> createOrder_request (empty_body\<lparr>body_status := Some ''shipped''\<rparr>) =
     Inl (ErrorResponse ''Invalid order status'' 400)"
  using createOrder_status_cursor[of "empty_body\<lparr>body_status := Some ''Shipped''\<rparr>"]
    createOrder_status_cursor[of "empty_body\<lparr>body_status := Some ''shipped''\<rparr>"]
  by (simp add: empty_body_def)

text \<open>
  A payload with no timeline, no progress and the status " shipped ": the request is refused
  with status 400 and no cursor is resolved.
\<close>

theorem createOrder_padded_status_counterexample:
  "body_timeline (empty_body\<lparr>body_status := Some '' shipped ''\<rparr>) = None
   \<and> body_progress (empty_body\<lparr>body_status := Some '' shipped ''\<rparr>) = None
   \<and> createOrder_request (empty_body\<lparr>body_status := Some '' shipped ''\<rparr>) =
       Inl (ErrorResponse ''Invalid order status'' 400)"
  by code_simp

section \<open>A cursor outside 1 to 7\<close>




section \<open>Normalizing a supplied timeline\<close>

lemma normalizedIncoming_from_objects:
  "normalizedIncoming_from index (map Step steps) =
     Inr (map (\<lambda>(i, step). normalizeStep i step) (enumerate index steps))"
  by (induction steps arbitrary: index) simp_all

lemma normalizedIncoming_objects:
  "normalizedIncoming (map Step steps) =
     Inr (map (\<lambda>(i, step). normalizeStep i step) (enumerate 0 steps))"
  by (simp add: normalizedIncoming_def normalizedIncoming_from_objects)

lemma js_error_is_TypeError: "(e :: js_error) = TypeError"
  by (cases e) simp

lemma normalizedIncoming_from_null:
  "Primitive JNull \<in> set entries \<Longrightarrow> normalizedIncoming_from index entries = Inl TypeError"
proof (induction entries arbitrary: index)
  case Nil
  then show ?case by simp
next
  case (Cons entry entries)
  show ?case
  proof (cases "entry = Primitive JNull")
    case True
    then show ?thesis by simp
  next
    case False
    with Cons.prems have "Primitive JNull \<in> set entries" by simp
    then have "normalizedIncoming_from (Suc index) entries = Inl TypeError"
      by (rule Cons.IH)
    then show ?thesis
      by (simp add: js_error_is_TypeError split: sum.splits)
  qed
qed

lemma defaultTimeline_length: "length defaultTimeline = 7"
  by (simp add: defaultTimeline_def)

lemma enforcedTimeline_length: "length (enforcedTimeline incoming) = 7"
  by (simp add: enforcedTimeline_def defaultTimeline_length)

lemma enforcedTimeline_missing:
  assumes "length incoming \<le> i" and "i < 7"
  shows "enforcedTimeline incoming ! i =
           \<lparr>id' = JNum (tpl_id (defaultTimeline ! i)),
            title = JStr (tpl_title (defaultTimeline ! i)),
            description = JStr (tpl_description (defaultTimeline ! i)),
            estimatedDuration = JStr (tpl_estimatedDuration (defaultTimeline ! i)),
            startDate = JStr [], finishDate = JStr [],
            status = JStr ''Locked'', isCompleted = JBool False,
            isInProgress = JBool False, isLocked = JBool True\<rparr>"
  using assms
  by (simp add: enforcedTimeline_def defaultTimeline_length nth_enumerate_eq item_at_def)

lemma enforcedTimeline_provided:
  assumes "i < length incoming" and "i < 7"
  shows "enforcedTimeline incoming ! i =
           \<lparr>id' = JNum (tpl_id (defaultTimeline ! i)),
            title = js_or (title (incoming ! i)) (JStr (tpl_title (defaultTimeline ! i))),
            description =
              js_or (description (incoming ! i)) (JStr (tpl_description (defaultTimeline ! i))),
            estimatedDuration =
              js_or (estimatedDuration (incoming ! i))
                    (JStr (tpl_estimatedDuration (defaultTimeline ! i))),
            startDate = js_or (startDate (incoming ! i)) (JStr []),
            finishDate = js_or (finishDate (incoming ! i)) (JStr []),
            status = status (incoming ! i),
            isCompleted = isCompleted (incoming ! i),
            isInProgress = isInProgress (incoming ! i),
            isLocked = isLocked (incoming ! i)\<rparr>"
  using assms
  by (simp add: enforcedTimeline_def defaultTimeline_length nth_enumerate_eq item_at_def)

lemma template_ids: "i < 7 \<Longrightarrow> tpl_id (defaultTimeline ! i) = int i + 1"
proof -
  assume "i < 7"
  then consider "i = 0" | "i = 1" | "i = 2" | "i = 3" | "i = 4" | "i = 5" | "i = 6" by arith
  then show ?thesis by cases (simp_all add: defaultTimeline_def)
qed

lemma normalized_nth: "i < length steps \<Longrightarrow> normalized steps ! i = normalizeStep i (steps ! i)"
  by (simp add: normalized_def nth_enumerate_eq)

lemma normalized_length: "length (normalized steps) = length steps"
  by (simp add: normalized_def)

lemma template_titles:
  "i < 7 \<Longrightarrow>
   tpl_title (defaultTimeline ! i) =
     [''Offer Accepted'', ''Mold / Product in Development'', ''Sample Sent to Client'',
      ''Sample Approved'', ''Production Phase'', ''Transport Phase'',
      ''Delivered to Final Location''] ! i"
proof -
  assume "i < 7"
  then consider "i = 0" | "i = 1" | "i = 2" | "i = 3" | "i = 4" | "i = 5" | "i = 6" by arith
  then show ?thesis by cases (simp_all add: defaultTimeline_def)
qed

lemma template_title_truthy: "i < 7 \<Longrightarrow> tpl_title (defaultTimeline ! i) \<noteq> []"
proof -
  assume "i < 7"
  then consider "i = 0" | "i = 1" | "i = 2" | "i = 3" | "i = 4" | "i = 5" | "i = 6" by arith
  then show ?thesis by cases (simp_all add: defaultTimeline_def)
qed

lemma template_field_title:
  "i < 7 \<Longrightarrow> template_field tpl_title i = JStr (tpl_title (defaultTimeline ! i))"
  by (simp add: template_field_def item_at_def defaultTimeline_length)

lemma enforced_title:
  assumes "i < 7"
  shows "title (enforcedTimeline (normalized steps) ! i) =
           (if i < length steps \<and> truthy (title (steps ! i)) then title (steps ! i)
            else JStr (tpl_title (defaultTimeline ! i)))"
proof (cases "i < length steps")
  case True
  then show ?thesis
    using assms enforcedTimeline_provided[of i "normalized steps"] template_title_truthy[OF assms]
    by (simp add: normalized_length normalized_nth normalizeStep_def js_or_def
        template_field_title)
next
  case False
  then show ?thesis
    using assms enforcedTimeline_missing[of "normalized steps" i]
    by (simp add: normalized_length)
qed

lemma ensureOneInProgress_length: "length (ensureOneInProgress c items) = length items"
  by (simp add: ensureOneInProgress_def)

lemma ensureOneInProgress_title:
  "i < length items \<Longrightarrow> title (ensureOneInProgress c items ! i) = title (items ! i)"
  by (simp add: ensureOneInProgress_def nth_enumerate_eq)

lemma enforced_isCompleted:
  assumes "i < 7"
  shows "truthy (isCompleted (enforcedTimeline (normalized steps) ! i)) =
           (i < length steps \<and> truthy (isCompleted (steps ! i)))"
proof (cases "i < length steps")
  case True
  then show ?thesis
    using assms enforcedTimeline_provided[of i "normalized steps"]
    by (simp add: normalized_length normalized_nth normalizeStep_def js_or_def)
next
  case False
  then show ?thesis
    using assms enforcedTimeline_missing[of "normalized steps" i]
    by (simp add: normalized_length)
qed

lemma enforced_isInProgress:
  assumes "i < 7"
  shows "truthy (isInProgress (enforcedTimeline (normalized steps) ! i)) =
           (i < length steps \<and> truthy (isInProgress (steps ! i)))"
proof (cases "i < length steps")
  case True
  then show ?thesis
    using assms enforcedTimeline_provided[of i "normalized steps"]
    by (simp add: normalized_length normalized_nth normalizeStep_def js_or_def)
next
  case False
  then show ?thesis
    using assms enforcedTimeline_missing[of "normalized steps" i]
    by (simp add: normalized_length)
qed

lemma count_first_seven:
  assumes "length enforced = 7"
    and "\<And>i. i < 7 \<Longrightarrow> p (enforced ! i) = (i < length steps \<and> q (steps ! i))"
  shows "length (filter p enforced) = length (filter q (take 7 steps))"
proof -
  have "{i. i < length enforced \<and> p (enforced ! i)} =
        {i. i < length (take 7 steps) \<and> q (take 7 steps ! i)}"
    using assms by auto
  then show ?thesis by (simp only: length_filter_conv_card)
qed

lemma some_iff_count: "(0 < length (filter q xs)) = list_ex q xs"
  by (simp add: list_ex_iff filter_empty_conv)

lemma computedCurrent_from_flags:
  "computedCurrent (enforcedTimeline (normalized steps)) =
     int (length (filter (\<lambda>step. truthy (isCompleted step)) (take 7 steps))) +
     (if list_ex (\<lambda>step. truthy (isInProgress step)) (take 7 steps) then 1 else 0)"
proof -
  have c: "length (filter (\<lambda>step. truthy (isCompleted step)) (enforcedTimeline (normalized steps))) =
           length (filter (\<lambda>step. truthy (isCompleted step)) (take 7 steps))"
    by (rule count_first_seven) (simp_all add: enforcedTimeline_length enforced_isCompleted)
  have p: "length (filter (\<lambda>step. truthy (isInProgress step)) (enforcedTimeline (normalized steps))) =
           length (filter (\<lambda>step. truthy (isInProgress step)) (take 7 steps))"
    by (rule count_first_seven) (simp_all add: enforcedTimeline_length enforced_isInProgress)
  show ?thesis
    unfolding computedCurrent_def Let_def c p some_iff_count ..
qed

section \<open>Cursor, missing steps and titles after an update\<close>

text \<open>A \<^verbatim>\<open>null\<close> entry anywhere in the timeline ends the update with the TypeError.\<close>

lemma updateOrder_null_entry:
  assumes "body_timeline body = Some entries" and "Primitive JNull \<in> set entries"
  shows "updateOrder_body body = Inl TypeError"
  using assms
  by (simp add: updateOrder_body_def updateOrder_timeline_def normalizedIncoming_def
      normalizedIncoming_from_null)

lemma normalizedIncoming_normalized: "normalizedIncoming (map Step steps) = Inr (normalized steps)"
  by (simp add: normalized_def normalizedIncoming_objects)

lemma recomputedCurrent_range: "1 \<le> recomputedCurrent enforced \<and> recomputedCurrent enforced \<le> 7"
  by (simp add: recomputedCurrent_def)

lemma statusFromPercentage_of_seven:
  assumes "1 \<le> c" and "c \<le> 7"
  shows "statusFromPercentage \<lparr>current = JNum c, total' = JNum 7\<rparr> =
           (if 100 * c \<ge> 100 * 7 then ''Delivered''
            else if 100 * c \<ge> 85 * 7 then ''Shipped''
            else if 100 * c \<ge> 70 * 7 then ''Production''
            else if 100 * c \<ge> 30 * 7 then ''In Progress''
            else ''Development'')"
proof -
  from assms consider "c = 1" | "c = 2" | "c = 3" | "c = 4" | "c = 5" | "c = 6" | "c = 7"
    by arith
  then show ?thesis by cases (simp_all add: statusFromPercentage_def)
qed

lemma updateOrder_timeline_objects:
  assumes "body_timeline body = Some (map Step steps)"
  shows "updateOrder_timeline body =
           Inr (body\<lparr>body_progress :=
                       Some \<lparr>current = JNum (recomputedCurrent (enforcedTimeline (normalized steps))),
                             total' = JNum 7\<rparr>,
                     body_timeline :=
                       Some (map Step
                         (ensureOneInProgress
                            (recomputedCurrent (enforcedTimeline (normalized steps)) - 1)
                            (enforcedTimeline (normalized steps)))),
                     body_currentPhase :=
                       js_or (case item_at
                                (ensureOneInProgress
                                   (recomputedCurrent (enforcedTimeline (normalized steps)) - 1)
                                   (enforcedTimeline (normalized steps)))
                                (recomputedCurrent (enforcedTimeline (normalized steps)) - 1) of
                                Some step \<Rightarrow> title step
                              | None \<Rightarrow> JUndefined)
                             (JStr ''Offer Accepted'')\<rparr>)"
  using assms
  by (simp add: updateOrder_timeline_def normalizedIncoming_normalized Let_def
      split: option.splits)

text \<open>
  Claim C4, as the code has it. For every update payload whose timeline entries are step
  objects the update succeeds, the recomputed cursor is the number of steps flagged
  completed plus one if any step is flagged in progress, clamped to 1..7, counted over the
  first seven entries, and the total is 7. When the payload carries no status, the status is
  derived from the percentage \<open>cursor / 7 * 100\<close>: at least 100 Delivered, at least 85
  Shipped, at least 70 Production, at least 30 In Progress, Development below.
\<close>

theorem updateOrder_cursor_from_flags:
  assumes "body_timeline body = Some (map Step steps)"
  shows "\<exists>body'. updateOrder_body body = Inr body'
           \<and> (let completed = int (length (filter (\<lambda>step. truthy (isCompleted step)) (take 7 steps)));
                   active = (if list_ex (\<lambda>step. truthy (isInProgress step)) (take 7 steps)
                             then 1 else 0);
                   cursor = min (max (completed + active) 1) 7
               in body_progress body' = Some \<lparr>current = JNum cursor, total' = JNum 7\<rparr>
                \<and> (body_status body = None \<longrightarrow>
                     body_status body' =
                       Some (if 100 * cursor \<ge> 100 * 7 then ''Delivered''
                             else if 100 * cursor \<ge> 85 * 7 then ''Shipped''
                             else if 100 * cursor \<ge> 70 * 7 then ''Production''
                             else if 100 * cursor \<ge> 30 * 7 then ''In Progress''
                             else ''Development'')))"
proof -
  let ?c = "recomputedCurrent (enforcedTimeline (normalized steps))"
  let ?p = "\<lparr>current = JNum ?c, total' = JNum 7\<rparr>"
  have cursor: "?c =
      min (max (int (length (filter (\<lambda>step. truthy (isCompleted step)) (take 7 steps))) +
                (if list_ex (\<lambda>step. truthy (isInProgress step)) (take 7 steps) then 1 else 0)) 1) 7"
    by (simp only: recomputedCurrent_def computedCurrent_from_flags)
  have range: "1 \<le> ?c" "?c \<le> 7"
    using recomputedCurrent_range[of "enforcedTimeline (normalized steps)"] by simp_all
  obtain body' where result: "updateOrder_body body = Inr body'"
    and progress: "body_progress body' = Some ?p"
    and status: "body_status body = None \<longrightarrow> body_status body' = Some (statusFromPercentage ?p)"
    by (simp add: updateOrder_body_def updateOrder_timeline_objects[OF assms]
        updateOrder_status_def)
  from status have "body_status body = None \<longrightarrow>
      body_status body' =
        Some (if 100 * ?c \<ge> 100 * 7 then ''Delivered''
              else if 100 * ?c \<ge> 85 * 7 then ''Shipped''
              else if 100 * ?c \<ge> 70 * 7 then ''Production''
              else if 100 * ?c \<ge> 30 * 7 then ''In Progress''
              else ''Development'')"
    by (simp only: statusFromPercentage_of_seven[OF range])
  with result progress show ?thesis
    unfolding Let_def cursor[symmetric] by (intro exI[of _ body']) simp
qed

text \<open>
  Steps 1 to 3 completed, step 4 in progress, steps 5 to 7 omitted, no status: cursor 4 of 7
  and status In Progress.
\<close>

theorem updateOrder_cursor_from_flags_witness:
  "\<exists>body'. updateOrder_body (empty_body\<lparr>body_timeline := Some (map Step three_done_fourth_active)\<rparr>)
             = Inr body'
         \<and> body_progress body' = Some \<lparr>current = JNum 4, total' = JNum 7\<rparr>
         \<and> body_status body' = Some ''In Progress''"
  using updateOrder_cursor_from_flags
          [of "empty_body\<lparr>body_timeline := Some (map Step three_done_fourth_active)\<rparr>"
              three_done_fourth_active]
  by (simp add: empty_body_def three_done_fourth_active_def no_fields_def Let_def)

text \<open>
  An update payload whose timeline is the array with the single entry \<^verbatim>\<open>null\<close>: the
  handler throws the TypeError and no cursor is computed.
\<close>

theorem updateOrder_null_timeline_counterexample:
  "updateOrder_body (empty_body\<lparr>body_timeline := Some [Primitive JNull]\<rparr>) = Inl TypeError"
  by code_simp

text \<open>
  Before the sweep, the normalization gives every index at or beyond the supplied length the
  locked template step.
\<close>

lemma normalization_locks_missing_steps:
  assumes "length steps \<le> i" and "i < 7"
  shows "\<exists>incoming. normalizedIncoming (map Step steps) = Inr incoming
           \<and> enforcedTimeline incoming ! i =
               \<lparr>id' = JNum (int i + 1),
                title = JStr (tpl_title (defaultTimeline ! i)),
                description = JStr (tpl_description (defaultTimeline ! i)),
                estimatedDuration = JStr (tpl_estimatedDuration (defaultTimeline ! i)),
                startDate = JStr [], finishDate = JStr [],
                status = JStr ''Locked'', isCompleted = JBool False,
                isInProgress = JBool False, isLocked = JBool True\<rparr>"
  using assms enforcedTimeline_missing[of "normalized steps" i]
  by (simp add: normalizedIncoming_normalized normalized_length template_ids)

lemma template_descriptions:
  "i < 7 \<Longrightarrow>
   tpl_description (defaultTimeline ! i) =
     [''Customer has approved the offer; order has been initiated.'',
      ''Product or mold is being created.'',
      ''Customer receives a sample. Approval required.'',
      ''Customer has approved the sample. Mass production begins.'',
      ''Final product is being manufactured.'',
      ''Order has shipped. In transit to the destination country.'',
      ''Order has been delivered to the specified location.''] ! i"
proof -
  assume "i < 7"
  then consider "i = 0" | "i = 1" | "i = 2" | "i = 3" | "i = 4" | "i = 5" | "i = 6" by arith
  then show ?thesis by cases (simp_all add: defaultTimeline_def)
qed

lemma template_durations:
  "i < 7 \<Longrightarrow>
   tpl_estimatedDuration (defaultTimeline ! i) =
     [''1 day'', ''14 days'', ''3 days'', ''2 days'', ''21 days'', ''7 days'', ''1 day''] ! i"
proof -
  assume "i < 7"
  then consider "i = 0" | "i = 1" | "i = 2" | "i = 3" | "i = 4" | "i = 5" | "i = 6" by arith
  then show ?thesis by cases (simp_all add: defaultTimeline_def)
qed

lemma ensureOneInProgress_nth:
  assumes "i < length items"
  shows "ensureOneInProgress c items ! i =
           (items ! i)\<lparr>status := JStr (if int i < c then ''Completed''
                                      else if int i = c then ''In Progress'' else ''Locked''),
                        isCompleted := JBool (int i < c),
                        isInProgress := JBool (int i = c),
                        isLocked := JBool (c < int i)\<rparr>"
  using assms by (auto simp add: ensureOneInProgress_def nth_enumerate_eq)

lemma recomputedCurrent_at_most_supplied:
  "recomputedCurrent (enforcedTimeline (normalized steps)) - 1 \<le> int (length steps)"
proof -
  have "length (filter (\<lambda>step. truthy (isCompleted step)) (take 7 steps)) \<le> length steps"
    using length_filter_le[of "\<lambda>step. truthy (isCompleted step)" "take 7 steps"] by simp
  then show ?thesis
    by (auto simp add: recomputedCurrent_def computedCurrent_from_flags)
qed

text \<open>
  Claim C7, as the code has it. For every supplied timeline of \<open>L < 7\<close> step objects the
  update succeeds with a timeline of 7 steps. Each step at an index from \<open>L\<close> to 6 is the
  template step (its id, title, description and duration) with empty dates. The recomputed
  cursor is at most \<open>L + 1\<close>, so the steps above index \<open>L\<close> are Locked
  (\<open>isCompleted\<close> and \<open>isInProgress\<close> false, \<open>isLocked\<close> true); the step at index
  \<open>L\<close> is Locked too unless the cursor is \<open>L + 1\<close>, and then the sweep makes it the
  step In Progress.
\<close>

theorem missing_steps_after_update:
  assumes "body_timeline body = Some (map Step steps)" and "length steps \<le> i" and "i < 7"
  shows "\<exists>body' final.
           updateOrder_body body = Inr body'
         \<and> body_timeline body' = Some (map Step final)
         \<and> length final = 7
         \<and> (let completed = int (length (filter (\<lambda>step. truthy (isCompleted step)) (take 7 steps)));
                 active = (if list_ex (\<lambda>step. truthy (isInProgress step)) (take 7 steps)
                           then 1 else 0);
                 cursor = min (max (completed + active) 1) 7;
                 started = (int i = cursor - 1)
             in cursor - 1 \<le> int (length steps)
              \<and> (length steps < i \<longrightarrow> \<not> started)
              \<and> final ! i =
                  \<lparr>id' = JNum (int i + 1),
                   title = JStr ([''Offer Accepted'', ''Mold / Product in Development'',
                                  ''Sample Sent to Client'', ''Sample Approved'',
                                  ''Production Phase'', ''Transport Phase'',
                                  ''Delivered to Final Location''] ! i),
                   description =
                     JStr ([''Customer has approved the offer; order has been initiated.'',
                            ''Product or mold is being created.'',
                            ''Customer receives a sample. Approval required.'',
                            ''Customer has approved the sample. Mass production begins.'',
                            ''Final product is being manufactured.'',
                            ''Order has shipped. In transit to the destination country.'',
                            ''Order has been delivered to the specified location.''] ! i),
                   estimatedDuration =
                     JStr ([''1 day'', ''14 days'', ''3 days'', ''2 days'', ''21 days'',
                            ''7 days'', ''1 day''] ! i),
                   startDate = JStr [], finishDate = JStr [],
                   status = JStr (if started then ''In Progress'' else ''Locked''),
                   isCompleted = JBool False, isInProgress = JBool started,
                   isLocked = JBool (\<not> started)\<rparr>)"
proof -
  let ?enforced = "enforcedTimeline (normalized steps)"
  let ?c = "recomputedCurrent ?enforced"
  let ?final = "ensureOneInProgress (?c - 1) ?enforced"
  have cursor: "?c =
      min (max (int (length (filter (\<lambda>step. truthy (isCompleted step)) (take 7 steps))) +
                (if list_ex (\<lambda>step. truthy (isInProgress step)) (take 7 steps) then 1 else 0)) 1) 7"
    by (simp only: recomputedCurrent_def computedCurrent_from_flags)
  have bound: "?c - 1 \<le> int (length steps)"
    by (rule recomputedCurrent_at_most_supplied)
  have result: "updateOrder_body body = Inr (updateOrder_status
      (body\<lparr>body_progress := Some \<lparr>current = JNum ?c, total' = JNum 7\<rparr>,
            body_timeline := Some (map Step ?final),
            body_currentPhase :=
              js_or (case item_at ?final (?c - 1) of Some step \<Rightarrow> title step
                     | None \<Rightarrow> JUndefined) (JStr ''Offer Accepted'')\<rparr>))"
    by (simp add: updateOrder_body_def updateOrder_timeline_objects[OF assms(1)])
  have timeline: "body_timeline (updateOrder_status
      (body\<lparr>body_progress := Some \<lparr>current = JNum ?c, total' = JNum 7\<rparr>,
            body_timeline := Some (map Step ?final),
            body_currentPhase := phase\<rparr>)) = Some (map Step ?final)" for phase
    by (simp add: updateOrder_status_def)
  have len: "length ?final = 7"
    by (simp add: ensureOneInProgress_length enforcedTimeline_length)
  have above: "\<not> int i < ?c - 1" using bound assms(2) by simp
  have started_iff: "(?c - 1 < int i) = (int i \<noteq> ?c - 1)" using above by auto
  have step: "?final ! i =
      \<lparr>id' = JNum (int i + 1),
       title = JStr (tpl_title (defaultTimeline ! i)),
       description = JStr (tpl_description (defaultTimeline ! i)),
       estimatedDuration = JStr (tpl_estimatedDuration (defaultTimeline ! i)),
       startDate = JStr [], finishDate = JStr [],
       status = JStr (if int i = ?c - 1 then ''In Progress'' else ''Locked''),
       isCompleted = JBool False, isInProgress = JBool (int i = ?c - 1),
       isLocked = JBool (int i \<noteq> ?c - 1)\<rparr>"
    using assms(2,3) above started_iff
      enforcedTimeline_missing[of "normalized steps" i]
      ensureOneInProgress_nth[of i ?enforced "?c - 1"]
    by (simp add: enforcedTimeline_length normalized_length template_ids)
  have later: "length steps < i \<longrightarrow> int i \<noteq> ?c - 1" using bound by auto
  show ?thesis
    unfolding Let_def cursor[symmetric]
    using result timeline len step bound later
      template_titles[OF assms(3)] template_descriptions[OF assms(3)]
      template_durations[OF assms(3)]
    by (intro exI[of _ "updateOrder_status
      (body\<lparr>body_progress := Some \<lparr>current = JNum ?c, total' = JNum 7\<rparr>,
            body_timeline := Some (map Step ?final),
            body_currentPhase :=
              js_or (case item_at ?final (?c - 1) of Some step \<Rightarrow> title step
                     | None \<Rightarrow> JUndefined) (JStr ''Offer Accepted'')\<rparr>)"]
        exI[of _ ?final]) simp
qed

text \<open>
  With four entries supplied (three completed, the fourth in progress) the step at index 5
  is the locked "Transport Phase".
\<close>

theorem missing_steps_after_update_witness:
  "\<exists>body' final.
     updateOrder_body (empty_body\<lparr>body_timeline := Some (map Step three_done_fourth_active)\<rparr>)
       = Inr body'
     \<and> body_timeline body' = Some (map Step final)
     \<and> final ! 5 =
         \<lparr>id' = JNum 6, title = JStr ''Transport Phase'',
          description = JStr ''Order has shipped. In transit to the destination country.'',
          estimatedDuration = JStr ''7 days'', startDate = JStr [], finishDate = JStr [],
          status = JStr ''Locked'', isCompleted = JBool False,
          isInProgress = JBool False, isLocked = JBool True\<rparr>"
proof -
  have supplied:
    "body_timeline (empty_body\<lparr>body_timeline := Some (map Step three_done_fourth_active)\<rparr>) =
       Some (map Step three_done_fourth_active)"
    by (simp add: empty_body_def)
  have short: "length three_done_fourth_active \<le> 5"
    by (simp add: three_done_fourth_active_def)
  have flags:
    "length (filter (\<lambda>step. truthy (isCompleted step)) (take 7 three_done_fourth_active)) = 3"
    "list_ex (\<lambda>step. truthy (isInProgress step)) (take 7 three_done_fourth_active)"
    by (simp_all add: three_done_fourth_active_def no_fields_def)
  from missing_steps_after_update[OF supplied short] show ?thesis
    by (auto simp add: Let_def flags)
qed

text \<open>
  One entry flagged both completed and in progress (\<open>L = 1\<close>) gives cursor 2: in the
  timeline of the update the step at index 1 is In Progress, not Locked.
\<close>

theorem missing_step_started_counterexample:
  "length done_and_active = 1
   \<and> (case updateOrder_body (empty_body\<lparr>body_timeline := Some (map Step done_and_active)\<rparr>) of
        Inl e \<Rightarrow> None
      | Inr body' \<Rightarrow> map_option (map (entry_field status)) (body_timeline body')) =
     Some [JStr ''Completed'', JStr ''In Progress'', JStr ''Locked'', JStr ''Locked'',
           JStr ''Locked'', JStr ''Locked'', JStr ''Locked'']"
  by code_simp

text \<open>
  Claim C9, as the code has it. For every supplied timeline of step objects the normalization
  succeeds and yields 7 steps; the title at index \<open>i\<close> is the caller's title when the
  entry at \<open>i\<close> exists and its title is truthy, and the canonical template title otherwise.
  The final sweep of the update leaves the titles as they are.
\<close>

theorem update_titles:
  assumes "i < 7"
  shows "\<exists>incoming. normalizedIncoming (map Step steps) = Inr incoming
           \<and> length (enforcedTimeline incoming) = 7
           \<and> title (enforcedTimeline incoming ! i) =
               (if i < length steps \<and> truthy (title (steps ! i)) then title (steps ! i)
                else JStr ([''Offer Accepted'', ''Mold / Product in Development'',
                            ''Sample Sent to Client'', ''Sample Approved'', ''Production Phase'',
                            ''Transport Phase'', ''Delivered to Final Location''] ! i))
           \<and> title (ensureOneInProgress (recomputedCurrent (enforcedTimeline incoming) - 1)
                      (enforcedTimeline incoming) ! i) =
               title (enforcedTimeline incoming ! i)"
  using assms enforced_title[OF assms, of steps] template_titles[OF assms]
  by (simp add: normalizedIncoming_normalized enforcedTimeline_length ensureOneInProgress_title)

text \<open>A renamed first step keeps its name; the second step gets the template title.\<close>

theorem update_titles_witness:
  "\<exists>incoming. normalizedIncoming (map Step renamed_first_step) = Inr incoming
     \<and> title (enforcedTimeline incoming ! 0) = JStr ''Deposit Received''
     \<and> title (enforcedTimeline incoming ! 1) = JStr ''Mold / Product in Development''"
  using update_titles[of 0 renamed_first_step] update_titles[of 1 renamed_first_step]
  by (auto simp add: renamed_first_step_def no_fields_def)

text \<open>
  A payload whose only entry is titled "Deposit Received": the first of the 7 titles after
  the normalization, and after the whole update, is "Deposit Received" and not
  "Offer Accepted".
\<close>

theorem update_titles_counterexample:
  "(case normalizedIncoming (map Step renamed_first_step) of
      Inl e \<Rightarrow> []
    | Inr incoming \<Rightarrow> map title (enforcedTimeline incoming)) =
     [JStr ''Deposit Received'', JStr ''Mold / Product in Development'',
      JStr ''Sample Sent to Client'', JStr ''Sample Approved'', JStr ''Production Phase'',
      JStr ''Transport Phase'', JStr ''Delivered to Final Location'']
   \<and> (case updateOrder_body (empty_body\<lparr>body_timeline := Some (map Step renamed_first_step)\<rparr>) of
        Inl e \<Rightarrow> None
      | Inr body' \<Rightarrow> map_option (map (entry_field title)) (body_timeline body')) =
     Some [JStr ''Deposit Received'', JStr ''Mold / Product in Development'',
           JStr ''Sample Sent to Client'', JStr ''Sample Approved'', JStr ''Production Phase'',
           JStr ''Transport Phase'', JStr ''Delivered to Final Location'']"
  by code_simp

section \<open>Setting a phase by its title\<close>

lemma findIndex_from_first:
  assumes "j < length xs" and "p (xs ! j)" and "\<forall>m<j. \<not> p (xs ! m)"
  shows "findIndex_from k p xs = k + int j"
  using assms
proof (induction xs arbitrary: k j)
  case Nil
  then show ?case by simp
next
  case (Cons x xs)
  show ?case
  proof (cases j)
    case 0
    with Cons.prems show ?thesis by simp
  next
    case (Suc j')
    from Cons.prems Suc have "\<not> p x" by auto
    moreover have "findIndex_from (k + 1) p xs = (k + 1) + int j'"
    proof (rule Cons.IH)
      show "j' < length xs" using Cons.prems Suc by simp
      show "p (xs ! j')" using Cons.prems Suc by simp
      show "\<forall>m<j'. \<not> p (xs ! m)"
      proof (intro allI impI)
        fix m assume "m < j'"
        then have "Suc m < j" using Suc by simp
        with Cons.prems(3) have "\<not> p ((x # xs) ! Suc m)" by blast
        then show "\<not> p (xs ! m)" by simp
      qed
    qed
    ultimately show ?thesis using Suc by simp
  qed
qed

lemma findIndex_from_found:
  assumes "x \<in> set xs" and "p x" and "0 \<le> k"
  shows "0 \<le> findIndex_from k p xs \<and> findIndex_from k p xs < k + int (length xs)"
  using assms
proof (induction xs arbitrary: k)
  case Nil
  then show ?case by simp
next
  case (Cons y ys)
  show ?case
  proof (cases "p y")
    case True
    with Cons.prems show ?thesis by simp
  next
    case False
    with Cons.prems have "x \<in> set ys" by auto
    from Cons.IH[OF this Cons.prems(2), of "k + 1"] Cons.prems(3) False
    show ?thesis by simp
  qed
qed

lemma updateTimelineStatus_length: "length (updateTimelineStatus c items) = length items"
  by (simp add: updateTimelineStatus_def)

lemma updateTimelineStatus_nth:
  assumes "i < length items"
  shows "status (updateTimelineStatus c items ! i) =
           (if int i < c then ''Completed'' else if int i = c then ''In Progress'' else ''Locked'')
       \<and> isCompleted (updateTimelineStatus c items ! i) = (int i < c)
       \<and> isInProgress (updateTimelineStatus c items ! i) = (int i = c)
       \<and> isLocked (updateTimelineStatus c items ! i) = (c < int i)
       \<and> title (updateTimelineStatus c items ! i) = title (items ! i)
       \<and> description (updateTimelineStatus c items ! i) = description (items ! i)"
  using assms by (auto simp add: updateTimelineStatus_def nth_enumerate_eq)

lemma updateTimelineStatus_valid:
  assumes "list_all step_valid items"
  shows "list_all step_valid (updateTimelineStatus c items)"
  using assms
  by (auto simp add: list_all_length updateTimelineStatus_length updateTimelineStatus_nth
      step_valid_def)

lemma updateStatus_valid:
  assumes "0 \<le> c" and "c \<le> 7"
  shows "(case map_of phaseStatusMap c of Some s \<Rightarrow> s | None \<Rightarrow> ''Development'') \<in>
           set [''Development'', ''In Progress'', ''Production'', ''Shipped'', ''Delivered'',
                ''Cancelled'']"
proof -
  from assms consider "c = 0" | "c = 1" | "c = 2" | "c = 3" | "c = 4" | "c = 5" | "c = 6"
    | "c = 7" by arith
  then show ?thesis by cases (simp_all add: phaseStatusMap_def)
qed

text \<open>The document that \<^verbatim>\<open>updateOrderPhase\<close> builds for the cursor \<open>c\<close>.\<close>

lemma updateOrderPhase_found:
  assumes "findIndex (\<lambda>item. title item = phase) (timeline order) = n" and "n \<noteq> - 1"
  shows "updateOrderPhase orderIdParam adminId phase progress_in (Some order) =
           (let c = (case progress_in of
                       Some p \<Rightarrow> min (max p 0) (total' (progress order))
                     | None \<Rightarrow> n + 1);
                updated =
                  updateStatus
                    (order\<lparr>progress := (progress order)\<lparr>current := c\<rparr>,
                           currentPhase := phase, lastUpdatedBy := adminId,
                           timeline := updateTimelineStatus (c - 1) (timeline order)\<rparr>)
            in (Some updated,
                if schema_valid updated
                then Success 200 (''Order '' @ orderId updated @ '' updated to '' @ phase) updated
                else ValidationError))"
  using assms by (simp add: updateOrderPhase_def Let_def)

lemma moved_order_valid:
  assumes "schema_valid order" and "0 \<le> c" and "c \<le> 7"
  shows "schema_valid
           (updateStatus
              (order\<lparr>progress := (progress order)\<lparr>current := c\<rparr>,
                     currentPhase := phase, lastUpdatedBy := adminId,
                     timeline := updateTimelineStatus (c - 1) (timeline order)\<rparr>))"
  using assms updateStatus_valid[OF assms(2,3)] updateTimelineStatus_valid[of "timeline order" "c - 1"]
  by (simp add: schema_valid_def updateStatus_def)

text \<open>
  Claim C5, as the code has it. For an order whose step at index 4 is titled
  "Production Phase" and none of whose earlier steps has that title, setting the phase
  "Production Phase" without an explicit progress sets the cursor to 5, \<open>currentPhase\<close> to
  "Production Phase" and the status to Production, whatever the cursor was; the steps
  below index 4 are Completed, the one at index 4 is In Progress, those above are Locked,
  with the flags in step. The document is stored and answered with 200 when the order that
  was found satisfies its schema.
\<close>

theorem updateOrderPhase_production:
  assumes "4 < length (timeline order)"
    and "title (timeline order ! 4) = ''Production Phase''"
    and "\<forall>j<4. title (timeline order ! j) \<noteq> ''Production Phase''"
    and "i < length (timeline order)"
  shows "\<exists>updated message.
           fst (updateOrderPhase orderIdParam adminId ''Production Phase'' None (Some order)) =
             Some updated
         \<and> (schema_valid order \<longrightarrow>
              snd (updateOrderPhase orderIdParam adminId ''Production Phase'' None (Some order)) =
                Success 200 message updated)
         \<and> current (progress updated) = 5
         \<and> currentPhase updated = ''Production Phase''
         \<and> orderStatus updated = ''Production''
         \<and> length (timeline updated) = length (timeline order)
         \<and> status (timeline updated ! i) =
             (if i < 4 then ''Completed'' else if i = 4 then ''In Progress'' else ''Locked'')
         \<and> isCompleted (timeline updated ! i) = (i < 4)
         \<and> isInProgress (timeline updated ! i) = (i = 4)
         \<and> isLocked (timeline updated ! i) = (4 < i)"
proof -
  have found: "findIndex (\<lambda>item. title item = ''Production Phase'') (timeline order) = 4"
    unfolding findIndex_def
    using findIndex_from_first[of 4 "timeline order" "\<lambda>item. title item = ''Production Phase''" 0]
      assms(1-3)
    by simp
  have valid: "schema_valid order \<Longrightarrow>
      schema_valid
        (updateStatus
           (order\<lparr>progress := (progress order)\<lparr>current := 5\<rparr>,
                  currentPhase := ''Production Phase'', lastUpdatedBy := adminId,
                  timeline := updateTimelineStatus (5 - 1) (timeline order)\<rparr>))"
    by (rule moved_order_valid) simp_all
  show ?thesis
    using updateTimelineStatus_nth[OF assms(4), of 4] valid
    by (simp add: updateOrderPhase_found[OF found] Let_def updateStatus_def phaseStatusMap_def
        updateTimelineStatus_length)
qed

lemma stored_order_titles:
  "map title (timeline (stored_order k t)) =
     [''Offer Accepted'', ''Mold / Product in Development'', ''Sample Sent to Client'',
      ''Sample Approved'', ''Production Phase'', ''Transport Phase'',
      ''Delivered to Final Location'']"
  by (simp add: stored_order_def updateTimelineStatus_def defaultTimeline_def stored_step_def
      enumerate_eq_zip upt_rec)

lemma stored_order_length: "length (timeline (stored_order k t)) = 7"
  by (simp add: stored_order_def updateTimelineStatus_length defaultTimeline_def)

lemma stored_order_title:
  "i < 7 \<Longrightarrow>
   title (timeline (stored_order k t) ! i) =
     [''Offer Accepted'', ''Mold / Product in Development'', ''Sample Sent to Client'',
      ''Sample Approved'', ''Production Phase'', ''Transport Phase'',
      ''Delivered to Final Location''] ! i"
  using nth_map[of i "timeline (stored_order k t)" title]
  by (simp add: stored_order_length stored_order_titles)

lemma stored_order_production_first:
  "\<forall>j<4. title (timeline (stored_order k t) ! j) \<noteq> ''Production Phase''"
proof (intro allI impI)
  fix j :: nat
  assume "j < 4"
  then consider "j = 0" | "j = 1" | "j = 2" | "j = 3" by arith
  then show "title (timeline (stored_order k t) ! j) \<noteq> ''Production Phase''"
    by cases (simp_all add: stored_order_title)
qed

lemma stored_order_valid: "0 \<le> k \<Longrightarrow> k \<le> 7 \<Longrightarrow> schema_valid (stored_order k t)"
  by (simp add: schema_valid_def stored_order_def updateTimelineStatus_valid step_valid_def
      defaultTimeline_def stored_step_def)

text \<open>The stored order at cursor 2 jumps to cursor 5 and status Production.\<close>

theorem updateOrderPhase_production_witness:
  "\<exists>updated message.
     updateOrderPhase ''ORD-2026-001'' ''admin-2'' ''Production Phase'' None
       (Some (stored_order 2 7)) = (Some updated, Success 200 message updated)
     \<and> current (progress updated) = 5
     \<and> orderStatus updated = ''Production''
     \<and> status (timeline updated ! 4) = ''In Progress''
     \<and> status (timeline updated ! 5) = ''Locked''"
proof -
  have a: "4 < length (timeline (stored_order 2 7))"
    "title (timeline (stored_order 2 7) ! 4) = ''Production Phase''"
    "5 < length (timeline (stored_order 2 7))"
    by (simp_all add: stored_order_length stored_order_title)
  have valid: "schema_valid (stored_order 2 7)"
    by (rule stored_order_valid) simp_all
  from updateOrderPhase_production[OF a(1,2) stored_order_production_first a(1),
         of "''ORD-2026-001''" "''admin-2''"]
       updateOrderPhase_production[OF a(1,2) stored_order_production_first a(3),
         of "''ORD-2026-001''" "''admin-2''"]
       valid
  show ?thesis by (auto simp add: prod_eq_iff)
qed

text \<open>
  The order whose first step is also titled "Production Phase" has that title at index 4
  too; \<^verbatim>\<open>findIndex\<close> stops at index 0, so the cursor becomes 1 and the status
  Development.
\<close>

theorem updateOrderPhase_duplicate_title_counterexample:
  "4 < length (timeline relabelled_order)
   \<and> title (timeline relabelled_order ! 4) = ''Production Phase''
   \<and> (case updateOrderPhase ''ORD-2026-001'' ''admin-2'' ''Production Phase'' None
             (Some relabelled_order) of
        (Some updated, Success code message data) \<Rightarrow>
          (current (progress updated), currentPhase updated, orderStatus updated,
           map status (timeline updated))
      | _ \<Rightarrow> (0, [], [], [])) =
     (1, ''Production Phase'', ''Development'',
      [''In Progress'', ''Locked'', ''Locked'', ''Locked'', ''Locked'', ''Locked'', ''Locked''])"
  by code_simp

lemma updateTimelineStatus_all_locked:
  assumes "c < 0"
  shows "map status (updateTimelineStatus c items) = replicate (length items) ''Locked''
       \<and> map isCompleted (updateTimelineStatus c items) = replicate (length items) False
       \<and> map isInProgress (updateTimelineStatus c items) = replicate (length items) False
       \<and> map isLocked (updateTimelineStatus c items) = replicate (length items) True"
  using assms
  by (auto simp add: list_eq_iff_nth_eq updateTimelineStatus_length updateTimelineStatus_nth)

text \<open>
  Claim C10, as the code has it. For every order (with a total that is not negative) whose
  timeline has the target title, setting the phase with the explicit progress 0 sets the
  cursor to 0 and \<open>currentPhase\<close> to the target title; every step is then Locked, none is
  Completed and none In Progress, and no step stands at the cursor for \<open>currentPhase\<close>
  to name. The document is stored and answered with 200 when the order that was found
  satisfies its schema.
\<close>

theorem updateOrderPhase_progress_zero:
  assumes "phase \<in> set (map title (timeline order))" and "0 \<le> total' (progress order)"
  shows "\<exists>updated message.
           fst (updateOrderPhase orderIdParam adminId phase (Some 0) (Some order)) = Some updated
         \<and> (schema_valid order \<longrightarrow>
              snd (updateOrderPhase orderIdParam adminId phase (Some 0) (Some order)) =
                Success 200 message updated)
         \<and> current (progress updated) = 0
         \<and> currentPhase updated = phase
         \<and> orderStatus updated = ''Development''
         \<and> length (timeline updated) = length (timeline order)
         \<and> map status (timeline updated) = replicate (length (timeline order)) ''Locked''
         \<and> map isCompleted (timeline updated) = replicate (length (timeline order)) False
         \<and> map isInProgress (timeline updated) = replicate (length (timeline order)) False
         \<and> map isLocked (timeline updated) = replicate (length (timeline order)) True
         \<and> item_at (timeline updated) (current (progress updated) - 1) = None"
proof -
  from assms(1) obtain item where "item \<in> set (timeline order)" and "title item = phase"
    by auto
  then have "0 \<le> findIndex (\<lambda>item. title item = phase) (timeline order)"
    unfolding findIndex_def
    using findIndex_from_found[of item "timeline order" "\<lambda>item. title item = phase" 0]
    by simp
  then have found: "findIndex (\<lambda>item. title item = phase) (timeline order) \<noteq> - 1"
    by simp
  have zero: "min 0 (total' (progress order)) = 0"
    using assms(2) by simp
  have valid: "schema_valid order \<Longrightarrow>
      schema_valid
        (updateStatus
           (order\<lparr>progress := (progress order)\<lparr>current := 0\<rparr>,
                  currentPhase := phase, lastUpdatedBy := adminId,
                  timeline := updateTimelineStatus (0 - 1) (timeline order)\<rparr>))"
    by (rule moved_order_valid) simp_all
  show ?thesis
    using updateTimelineStatus_all_locked[of "- 1" "timeline order"] valid
    by (simp add: updateOrderPhase_found[OF refl found] Let_def zero updateStatus_def
        phaseStatusMap_def updateTimelineStatus_length item_at_def)
qed

text \<open>The stored order at cursor 3, set to "Sample Approved" with progress 0.\<close>

theorem updateOrderPhase_progress_zero_witness:
  "\<exists>updated message.
     updateOrderPhase ''ORD-2026-001'' ''admin-2'' ''Sample Approved'' (Some 0)
       (Some (stored_order 3 7)) = (Some updated, Success 200 message updated)
     \<and> current (progress updated) = 0
     \<and> currentPhase updated = ''Sample Approved''
     \<and> map isInProgress (timeline updated) = [False, False, False, False, False, False, False]
     \<and> map isLocked (timeline updated) = [True, True, True, True, True, True, True]"
proof -
  have a: "''Sample Approved'' \<in> set (map title (timeline (stored_order 3 7)))"
    "0 \<le> total' (progress (stored_order 3 7))"
    by (simp_all add: stored_order_titles) (simp add: stored_order_def)
  have valid: "schema_valid (stored_order 3 7)"
    by (rule stored_order_valid) simp_all
  from updateOrderPhase_progress_zero[OF a, of "''ORD-2026-001''" "''admin-2''"] valid
  show ?thesis by (auto simp add: stored_order_length eval_nat_numeral prod_eq_iff)
qed

text \<open>
  The other mutations do not keep the consistency either. Setting the phase
  "Production Phase" with the explicit progress 2 on the stored order is stored with
  cursor 2: the step In Progress is "Mold / Product in Development" while \<open>currentPhase\<close>
  is "Production Phase". Creating an order with a supplied timeline of two steps that are
  both in progress passes the validation and hands the timeline on as it is.
\<close>

theorem other_mutations_counterexample:
  "(case updateOrderPhase ''ORD-2026-001'' ''admin-2'' ''Production Phase'' (Some 2)
           (Some (stored_order 3 7)) of
      (Some updated, Success code message data) \<Rightarrow>
        (current (progress updated), currentPhase updated,
         map title (filter isInProgress (timeline updated)))
    | _ \<Rightarrow> (0, [], [])) =
     (2, ''Production Phase'', [''Mold / Product in Development''])
   \<and> createOrder_request (empty_body\<lparr>body_timeline := Some two_active\<rparr>) =
       Inr (createOrder_body (empty_body\<lparr>body_timeline := Some two_active\<rparr>))
   \<and> body_timeline (createOrder_body (empty_body\<lparr>body_timeline := Some two_active\<rparr>)) =
       Some two_active
   \<and> map (entry_field isInProgress) two_active = [JBool True, JBool True]"
  by code_simp

end
